theory Spec2Isabelle
  imports Complex_Main "HOL-Library.Sublist"
begin

section \<open>Values of the run time\<close>

text \<open>
  A JavaScript string is a sequence of UTF-16 code units; a code unit is modelled as a
  natural number. An optional field (absent, \<open>undefined\<close> or \<open>null\<close>) is \<open>None\<close>.
\<close>

type_synonym jschar = nat
type_synonym jsstring = "jschar list"

definition str :: "string \<Rightarrow> jsstring" where
  \<comment> \<open>An ASCII literal of the source, as code units.\<close>
  "str s = map of_char s"

definition nullish :: "'a option \<Rightarrow> 'a option \<Rightarrow> 'a option" where
  \<comment> \<open>\<open>a ?? b\<close> where \<open>b\<close> may itself be absent.\<close>
  "nullish a b = (case a of Some v \<Rightarrow> Some v | None \<Rightarrow> b)"

definition orElse :: "'a option \<Rightarrow> 'a \<Rightarrow> 'a" where
  \<comment> \<open>\<open>a ?? d\<close> where \<open>d\<close> is a value.\<close>
  "orElse a d = (case a of Some v \<Rightarrow> v | None \<Rightarrow> d)"

subsection \<open>Numbers\<close>

text \<open>
  A JavaScript number is an IEEE 754 double: \<open>Num r\<close> is the finite double of value \<open>r\<close>,
  and there are the two infinities and NaN. The two zeros are one value here: the program
  never divides by a zero and never prints the sign of one. Arithmetic rounds to the
  nearest double, a tie going to the even significand, and overflows to an infinity.
\<close>

datatype jsnum = Num rat | NaN | PInf | NInf

type_synonym number = jsnum

text \<open>
  \<open>scale m u e\<close> halves or doubles \<open>m\<close> until it has 53 significant bits (it lies between
  \<open>4503599627370496\<close> and \<open>9007199254740992\<close>), or fewer at the least exponent \<open>-1074\<close>,
  keeping the product \<open>m * u\<close> and \<open>u\<close> the power \<open>e\<close> of two; \<open>u\<close> is then the distance
  between neighbouring doubles.
\<close>

function scale :: "rat \<Rightarrow> rat \<Rightarrow> int \<Rightarrow> rat \<times> rat" where
  "scale m u e =
     (if 9007199254740992 \<le> m then scale (m / 2) (u * 2) (e + 1)
      else if m < 4503599627370496 \<and> - 1074 < e then scale (m * 2) (u / 2) (e - 1)
      else (m, u))"
  by pat_completeness auto
termination
proof (relation "measures [\<lambda>(m, u, e). if 9007199254740992 \<le> m then nat \<lceil>m\<rceil> else 0,
                           \<lambda>(m, u, e). nat (e + 1074)]", goal_cases)
  case 1
  show ?case by simp
next
  case (2 m u e)
  then have big: "9007199254740992 \<le> m" by simp
  have "\<lceil>m / 2\<rceil> < \<lceil>m\<rceil>"
  proof -
    have "m / 2 + 1 \<le> m" using big by simp
    then have "of_int \<lceil>m / 2\<rceil> < m" using ceiling_correct [of "m / 2"] by linarith
    then show ?thesis by (simp add: less_ceiling_iff)
  qed
  moreover have "0 < \<lceil>m\<rceil>" using big by (simp add: less_ceiling_iff)
  ultimately show ?case using big by auto
next
  case (3 m u e)
  then show ?case by auto
qed

declare scale.simps [simp del]

definition roundHalfEven :: "rat \<Rightarrow> int" where
  \<comment> \<open>The nearest integer, a tie going to the even one.\<close>
  "roundHalfEven m =
     (let n = \<lfloor>m\<rfloor>; f = m - of_int n
      in if f < 1 / 2 then n else if 1 / 2 < f then n + 1 else if even n then n else n + 1)"

definition toDouble :: "rat \<Rightarrow> number" where
  \<comment> \<open>The double nearest to a real value: what an arithmetic operation and the reading
      of a decimal literal return for their exact result.\<close>
  "toDouble x =
     (if x = 0 then Num 0
      else if 2 ^ 1024 \<le> \<bar>x\<bar> then (if 0 < x then PInf else NInf)
      else (let mu = scale \<bar>x\<bar> 1 0;
                r = of_int (roundHalfEven (fst mu)) * snd mu
            in if 2 ^ 1024 \<le> r then (if 0 < x then PInf else NInf)
               else Num (if 0 < x then r else - r)))"

definition js_div :: "number \<Rightarrow> number \<Rightarrow> number" where
  \<comment> \<open>The operator \<open>/\<close>.\<close>
  "js_div a b =
     (case a of
        NaN \<Rightarrow> NaN
      | Num x \<Rightarrow>
          (case b of
             NaN \<Rightarrow> NaN
           | Num y \<Rightarrow>
               if y = 0 then (if x = 0 then NaN else if 0 < x then PInf else NInf)
               else toDouble (x / y)
           | PInf \<Rightarrow> Num 0
           | NInf \<Rightarrow> Num 0)
      | PInf \<Rightarrow>
          (case b of
             NaN \<Rightarrow> NaN
           | Num y \<Rightarrow> if 0 \<le> y then PInf else NInf
           | PInf \<Rightarrow> NaN
           | NInf \<Rightarrow> NaN)
      | NInf \<Rightarrow>
          (case b of
             NaN \<Rightarrow> NaN
           | Num y \<Rightarrow> if 0 \<le> y then NInf else PInf
           | PInf \<Rightarrow> NaN
           | NInf \<Rightarrow> NaN))"

definition js_lt :: "number \<Rightarrow> number \<Rightarrow> bool" where
  \<comment> \<open>The operator \<open><\<close>; \<open>a > b\<close> is \<open>js_lt b a\<close>. A comparison with NaN is false.\<close>
  "js_lt a b =
     (case a of
        NaN \<Rightarrow> False
      | Num x \<Rightarrow> (case b of NaN \<Rightarrow> False | Num y \<Rightarrow> x < y | PInf \<Rightarrow> True | NInf \<Rightarrow> False)
      | PInf \<Rightarrow> False
      | NInf \<Rightarrow> (case b of NaN \<Rightarrow> False | Num y \<Rightarrow> True | PInf \<Rightarrow> True | NInf \<Rightarrow> False))"

definition truthy :: "number option \<Rightarrow> bool" where
  \<comment> \<open>Truthiness of an optional number: absent, \<open>0\<close> and NaN are falsy.\<close>
  "truthy a = (case a of Some v \<Rightarrow> v \<noteq> Num 0 \<and> v \<noteq> NaN | None \<Rightarrow> False)"

definition Math_round :: "number \<Rightarrow> number" where
  \<comment> \<open>\<open>Math.round\<close>: the nearest integer, a tie going up. The result is exact: a double
      with a fraction is below \<open>4503599627370496\<close>, where every integer is a double.\<close>
  "Math_round a = (case a of Num x \<Rightarrow> Num (of_int \<lfloor>x + 1 / 2\<rfloor>) | _ \<Rightarrow> a)"

definition Math_max :: "number \<Rightarrow> number \<Rightarrow> number" where
  "Math_max a b = (if a = NaN \<or> b = NaN then NaN else if js_lt a b then b else a)"

definition Math_min :: "number \<Rightarrow> number \<Rightarrow> number" where
  "Math_min a b = (if a = NaN \<or> b = NaN then NaN else if js_lt b a then b else a)"

subsection \<open>Numbers as text\<close>

text \<open>
  \<open>String(x)\<close> for a number is the algorithm Number::toString of ECMAScript: the fewest
  decimal digits \<open>s\<close> (\<open>k\<close> of them) and the exponent \<open>n\<close> such that \<open>s\<close> times ten to the
  \<open>n - k\<close> reads back as \<open>x\<close>, the closest such \<open>s\<close> when there are two, written plainly
  when \<open>-6 < n \<le> 21\<close> and with an exponent otherwise.
\<close>

fun showNat :: "nat \<Rightarrow> jsstring" where
  "showNat n = (if n < 10 then [48 + n] else showNat (n div 10) @ [48 + n mod 10])"

declare showNat.simps [simp del]

definition pow10 :: "int \<Rightarrow> rat" where
  "pow10 k = (if 0 \<le> k then 10 ^ nat k else 1 / 10 ^ nat (- k))"

function decExp :: "rat \<Rightarrow> int \<Rightarrow> int" where
  \<comment> \<open>\<open>decExp x 1\<close> is the \<open>n\<close> with \<open>pow10 (n - 1) \<le> x < pow10 n\<close>, for a positive double.\<close>
  "decExp m n =
     (if 10 \<le> m then decExp (m / 10) (n + 1)
      else if m < 1 \<and> - 400 < n then decExp (m * 10) (n - 1)
      else n)"
  by pat_completeness auto
termination
proof (relation "measures [\<lambda>(m, n). if 10 \<le> m then nat \<lceil>m\<rceil> else 0,
                           \<lambda>(m, n). nat (n + 400)]", goal_cases)
  case 1
  show ?case by simp
next
  case (2 m n)
  then have big: "10 \<le> m" by simp
  have "\<lceil>m / 10\<rceil> < \<lceil>m\<rceil>"
  proof -
    have "m / 10 + 1 \<le> m" using big by simp
    then have "of_int \<lceil>m / 10\<rceil> < m" using ceiling_correct [of "m / 10"] by linarith
    then show ?thesis by (simp add: less_ceiling_iff)
  qed
  moreover have "0 < \<lceil>m\<rceil>" using big by (simp add: less_ceiling_iff)
  ultimately show ?case using big by auto
next
  case (3 m n)
  then show ?case by auto
qed

declare decExp.simps [simp del]

definition digitsAt :: "rat \<Rightarrow> int \<Rightarrow> nat \<Rightarrow> (int \<times> int) option" where
  \<comment> \<open>The \<open>k\<close>-digit \<open>s\<close> and its \<open>n\<close> that read back as \<open>x\<close>, if there is one: the two
      candidates are the \<open>k\<close>-digit decimals next below and next above \<open>x\<close>.\<close>
  "digitsAt x n0 k =
     (let lo = \<lfloor>x / pow10 (n0 - int k)\<rfloor>;
          cl = (lo, n0);
          ch = (if lo + 1 = 10 ^ k then (10 ^ (k - 1), n0 + 1) else (lo + 1, n0));
          vl = of_int (fst cl) * pow10 (snd cl - int k);
          vh = of_int (fst ch) * pow10 (snd ch - int k);
          okl = (toDouble vl = Num x);
          okh = (toDouble vh = Num x)
      in if okl \<and> okh
         then (if x - vl < vh - x then Some cl
               else if vh - x < x - vl then Some ch
               else if even (fst cl) then Some cl else Some ch)
         else if okl then Some cl
         else if okh then Some ch
         else None)"

fun shortest :: "rat \<Rightarrow> int \<Rightarrow> nat list \<Rightarrow> int \<times> int \<times> nat" where
  \<comment> \<open>The first digit count of the list that has a decimal reading back as \<open>x\<close>;
      seventeen digits always do.\<close>
  "shortest x n0 [] = (\<lfloor>x / pow10 (n0 - 17)\<rfloor>, n0, 17)"
| "shortest x n0 (k # ks) =
     (case digitsAt x n0 k of
        Some c \<Rightarrow> (fst c, snd c, k)
      | None \<Rightarrow> shortest x n0 ks)"

definition positiveToString :: "rat \<Rightarrow> jsstring" where
  "positiveToString x =
     (let snk = shortest x (decExp x 1)
                  [1, 2, 3, 4, 5, 6, 7, 8, 9, 10, 11, 12, 13, 14, 15, 16, 17];
          ds = showNat (nat (fst snk));
          n = fst (snd snk);
          k = snd (snd snk)
      in if int k \<le> n \<and> n \<le> 21 then ds @ replicate (nat (n - int k)) 48
         else if 0 < n \<and> n \<le> 21 then take (nat n) ds @ [46] @ drop (nat n) ds
         else if - 6 < n \<and> n \<le> 0 then str ''0.'' @ replicate (nat (- n)) 48 @ ds
         else (if k = 1 then ds else take 1 ds @ [46] @ drop 1 ds)
              @ [101] @ (if 0 < n then [43] else [45]) @ showNat (nat \<bar>n - 1\<bar>))"

definition Number_toString :: "number \<Rightarrow> jsstring" where
  "Number_toString a =
     (case a of
        NaN \<Rightarrow> str ''NaN''
      | PInf \<Rightarrow> str ''Infinity''
      | NInf \<Rightarrow> str ''-Infinity''
      | Num x \<Rightarrow>
          if x = 0 then str ''0''
          else if x < 0 then 45 # positiveToString (- x)
          else positiveToString x)"

section \<open>Regular expressions\<close>

text \<open>
  The patterns of \<open>search.ts\<close> use character classes, sequence, alternation, the greedy
  quantifiers \<open>?\<close>, \<open>*\<close>, \<open>+\<close>, \<open>{2,}\<close> and capture groups. \<open>ms r s\<close> lists, in the
  backtracking order of the ECMAScript matcher, every way \<open>r\<close> matches a prefix of \<open>s\<close>:
  the captures made and the text left. A greedy quantifier tries one more round before it
  tries to stop; an alternation tries its left branch first.
\<close>

datatype re =
    Cls "jschar \<Rightarrow> bool"
  | Seq re re
  | Alt re re
  | Opt re
  | Star re
  | Grp nat re

type_synonym captures = "(nat \<times> jsstring) list"

function ms :: "re \<Rightarrow> jsstring \<Rightarrow> (captures \<times> jsstring) list" where
  "ms (Cls P) s = (case s of [] \<Rightarrow> [] | c # cs \<Rightarrow> if P c then [([], cs)] else [])"
| "ms (Seq a b) s =
     concat (map (\<lambda>p. map (\<lambda>q. (fst p @ fst q, snd q)) (ms b (snd p))) (ms a s))"
| "ms (Alt a b) s = ms a s @ ms b s"
| "ms (Opt a) s = ms a s @ [([], s)]"
| "ms (Star a) s =
     concat (map (\<lambda>p. if length (snd p) < length s
                       then map (\<lambda>q. (fst p @ fst q, snd q)) (ms (Star a) (snd p))
                       else [])
                 (ms a s))
     @ [([], s)]"
| "ms (Grp n a) s =
     map (\<lambda>p. ((n, take (length s - length (snd p)) s) # fst p, snd p)) (ms a s)"
  by pat_completeness auto
termination
  by (relation "measures [\<lambda>(r, s). size r, \<lambda>(r, s). length s]") auto

definition Plus :: "re \<Rightarrow> re" where
  "Plus a = Seq a (Star a)"

definition AtLeast2 :: "re \<Rightarrow> re" where
  \<comment> \<open>The quantifier \<open>{2,}\<close>.\<close>
  "AtLeast2 a = Seq a (Seq a (Star a))"

fun exec :: "re \<Rightarrow> jsstring \<Rightarrow> (jsstring \<times> captures) option" where
  \<comment> \<open>\<open>text.match(r)\<close> without the \<open>g\<close> flag: the leftmost match, as the matched text
      (\<open>match[0]\<close>) and the captures; \<open>None\<close> is \<open>null\<close>.\<close>
  "exec r [] = (case ms r [] of [] \<Rightarrow> None | p # _ \<Rightarrow> Some ([], fst p))"
| "exec r (c # cs) =
     (case ms r (c # cs) of
        [] \<Rightarrow> exec r cs
      | p # _ \<Rightarrow> Some (take (length (c # cs) - length (snd p)) (c # cs), fst p))"

definition grp :: "nat \<Rightarrow> captures \<Rightarrow> jsstring" where
  \<comment> \<open>\<open>match[n]\<close> of a group that took part in the match.\<close>
  "grp n cs = orElse (map_of cs n) []"

definition digit :: "jschar \<Rightarrow> bool" where
  \<comment> \<open>\<open>\d\<close>: \<open>0\<close> to \<open>9\<close>.\<close>
  "digit c = (48 \<le> c \<and> c \<le> 57)"

definition space :: "jschar \<Rightarrow> bool" where
  \<comment> \<open>\<open>\s\<close>: the white space and line terminators of ECMAScript.\<close>
  "space c = (c \<in> {9, 10, 11, 12, 13, 32, 160, 5760, 8232, 8233, 8239, 8287, 12288, 65279}
              \<or> (8192 \<le> c \<and> c \<le> 8202))"

definition ch :: "char \<Rightarrow> re" where
  \<comment> \<open>One literal character.\<close>
  "ch x = Cls (\<lambda>c. c = of_char x)"

definition chi :: "char \<Rightarrow> char \<Rightarrow> re" where
  \<comment> \<open>One ASCII letter under the \<open>i\<close> flag, given in its lower and upper case: the only
      code units whose upper case is that letter.\<close>
  "chi lo up = Cls (\<lambda>c. c = of_char lo \<or> c = of_char up)"

definition sup2 :: re where
  \<comment> \<open>The superscript two, U+00B2; it has no other case.\<close>
  "sup2 = Cls (\<lambda>c. c = 178)"

definition decimal :: "jsstring \<Rightarrow> nat" where
  \<comment> \<open>The value of a run of decimal digits.\<close>
  "decimal ds = foldl (\<lambda>acc c. 10 * acc + (c - 48)) 0 ds"

definition Number_digits :: "jsstring \<Rightarrow> number" where
  \<comment> \<open>\<open>Number(s)\<close> for \<open>s\<close> a non-empty run of decimal digits, the only argument the
      source gives it: the double nearest to the value of the digits.\<close>
  "Number_digits ds = toDouble (of_nat (decimal ds))"

definition parseFloat :: "jsstring \<Rightarrow> number" where
  \<comment> \<open>\<open>parseFloat(s)\<close> for \<open>s\<close> of the shape \<open>\d+(\.\d+)?\<close>, the only argument the
      source gives it: the double nearest to the decimal the integer part and the fraction
      after the dot denote.\<close>
  "parseFloat s =
     (let ip = takeWhile digit s; rest = dropWhile digit s in
      case rest of
        [] \<Rightarrow> toDouble (of_nat (decimal ip))
      | d # fs \<Rightarrow>
          if d = 46
          then (let fp = takeWhile digit fs
                in toDouble (of_nat (decimal ip) + of_nat (decimal fp) / 10 ^ length fp))
          else toDouble (of_nat (decimal ip)))"

section \<open>The text extractors of \<open>search.ts\<close>\<close>

definition sizeRe :: re where
  \<comment> \<open>\<open>/(\d+(\.\d+)?)\s?(m2|m\<^sup>2)/i\<close>\<close>
  "sizeRe =
     Seq (Grp 1 (Seq (Plus (Cls digit)) (Opt (Grp 2 (Seq (ch CHR ''.'') (Plus (Cls digit)))))))
    (Seq (Opt (Cls space))
         (Grp 3 (Alt (Seq (chi CHR ''m'' CHR ''M'') (ch CHR ''2''))
                     (Seq (chi CHR ''m'' CHR ''M'') sup2))))"

definition parseSize :: "jsstring \<Rightarrow> number option" where
  "parseSize text =
     (case exec sizeRe text of
        Some m \<Rightarrow> Some (parseFloat (grp 1 (snd m)))
      | None \<Rightarrow> None)"

definition priceRe :: re where
  \<comment> \<open>\<open>/(\d{2,})\s?(Kc|CZK)?/i\<close>\<close>
  "priceRe =
     Seq (Grp 1 (AtLeast2 (Cls digit)))
    (Seq (Opt (Cls space))
         (Opt (Grp 2 (Alt (Seq (chi CHR ''k'' CHR ''K'') (chi CHR ''c'' CHR ''C''))
                          (Seq (chi CHR ''c'' CHR ''C'')
                          (Seq (chi CHR ''z'' CHR ''Z'') (chi CHR ''k'' CHR ''K'')))))))"

definition parsePrice :: "jsstring \<Rightarrow> number option" where
  \<comment> \<open>\<open>text.replace(/\s/g, "")\<close> removes every white-space code unit first.\<close>
  "parsePrice text =
     (case exec priceRe (filter (\<lambda>c. \<not> space c) text) of
        Some m \<Rightarrow> Some (Number_digits (grp 1 (snd m)))
      | None \<Rightarrow> None)"

definition kk :: re where
  "kk = Seq (chi CHR ''k'' CHR ''K'') (chi CHR ''k'' CHR ''K'')"

definition roomsRe :: re where
  \<comment> \<open>\<open>/(\d+)\s*\+?\s*kk/i\<close>\<close>
  "roomsRe =
     Seq (Grp 1 (Plus (Cls digit)))
    (Seq (Star (Cls space)) (Seq (Opt (ch CHR ''+'')) (Seq (Star (Cls space)) kk)))"

definition roomsRe2 :: re where
  \<comment> \<open>\<open>/(\d+)\s*kk/i\<close>\<close>
  "roomsRe2 = Seq (Grp 1 (Plus (Cls digit))) (Seq (Star (Cls space)) kk)"

definition parseRooms :: "jsstring \<Rightarrow> number option" where
  "parseRooms text =
     (case exec roomsRe text of
        Some m \<Rightarrow> Some (Number_digits (grp 1 (snd m)))
      | None \<Rightarrow>
          (case exec roomsRe2 text of
             Some other \<Rightarrow> Some (Number_digits (grp 1 (snd other)))
           | None \<Rightarrow> None))"

definition layoutRe :: re where
  \<comment> \<open>\<open>/\d+\s*\+\s*kk|\d+\s*kk/i\<close>\<close>
  "layoutRe =
     Alt (Seq (Plus (Cls digit))
         (Seq (Star (Cls space)) (Seq (ch CHR ''+'') (Seq (Star (Cls space)) kk))))
         (Seq (Plus (Cls digit)) (Seq (Star (Cls space)) kk))"

definition deriveLayoutLabel :: "jsstring \<Rightarrow> jsstring option" where
  "deriveLayoutLabel text =
     (case exec layoutRe text of Some m \<Rightarrow> Some (fst m) | None \<Rightarrow> None)"

section \<open>The data model\<close>

text \<open>
  The record types of \<open>lib/types.ts\<close>. A raw identifier is a string or a number. Field
  names are prefixed where two records share one or where HOL has the name already. The
  index signature of \<open>RawApifyListing\<close> (further fields of any type) is left out: the
  code reads none of them.
\<close>

datatype rawid = IdNum number | IdStr jsstring

record RawApifyListing =
  raw_id :: "rawid option"
  raw_url :: "jsstring option"
  raw_title :: "jsstring option"
  raw_locality :: "jsstring option"
  raw_description :: "jsstring option"
  raw_price :: "number option"
  raw_size :: "number option"
  raw_area :: "number option"
  raw_rooms :: "number option"
  raw_images :: "jsstring list option"

record DerivedAttributes =
  pricePerM2 :: "number option"
  derived_sizeM2 :: "number option"
  layoutLabel :: "jsstring option"

text \<open>
  The JSON values an answer of the scoring service can hold. The score fields of a
  listing and of a score result hold whatever the answer carried: TypeScript's annotations
  (\<open>number\<close>, \<open>string\<close>, \<open>string[]\<close>) are not checked at run time.
\<close>

datatype json =
    JNull
  | JBool bool
  | JNum number
  | JStr jsstring
  | JArr "json list"
  | JObj "(jsstring \<times> json) list"

record RealEstateItem =
  itemId :: jsstring
  title :: jsstring
  url :: jsstring
  location :: "jsstring option"
  price :: "number option"
  sizeM2 :: "number option"
  rooms :: "number option"
  images :: "jsstring list option"
  description :: "jsstring option"
  raw :: RawApifyListing
  derived :: DerivedAttributes
  aiScore :: "number option"
  aiReason :: "json option"
  aiHighlights :: "json option"

record NormalizedSearchParams =
  city :: jsstring
  priceMax :: "number option"
  priceM2Max :: "number option"
  roomsFrom :: "number option"
  search_keywords :: "jsstring list"

record ScoreResult =
  score_id :: jsstring
  score_aiScore :: "number option"
  score_aiReason :: "json option"
  score_aiHighlights :: "json option"

section \<open>Identifiers\<close>

definition String_id :: "rawid \<Rightarrow> jsstring" where
  \<comment> \<open>\<open>String(id)\<close>: a string is itself, a number is written by Number::toString.\<close>
  "String_id i = (case i of IdStr s \<Rightarrow> s | IdNum x \<Rightarrow> Number_toString x)"

definition truthy_id :: "rawid option \<Rightarrow> bool" where
  \<comment> \<open>\<open>if (item.id)\<close>: absent, \<open>0\<close>, NaN and the empty string are falsy.\<close>
  "truthy_id i =
     (case i of
        None \<Rightarrow> False
      | Some (IdNum x) \<Rightarrow> x \<noteq> Num 0 \<and> x \<noteq> NaN
      | Some (IdStr s) \<Rightarrow> s \<noteq> [])"

definition truthy_str :: "jsstring option \<Rightarrow> bool" where
  \<comment> \<open>\<open>if (item.url)\<close>: absent and the empty string are falsy.\<close>
  "truthy_str u = (case u of None \<Rightarrow> False | Some s \<Rightarrow> s \<noteq> [])"

text \<open>
  \<open>Buffer.from(s).toString("base64")\<close>: the string is encoded in UTF-8 (a surrogate pair
  is one code point of four bytes, a lone surrogate becomes U+FFFD), and the bytes are
  written in base64 with padding.
\<close>

definition hiSurrogate :: "jschar \<Rightarrow> bool" where
  "hiSurrogate c = (55296 \<le> c \<and> c < 56320)"

definition loSurrogate :: "jschar \<Rightarrow> bool" where
  "loSurrogate c = (56320 \<le> c \<and> c < 57344)"

definition utf8_unit :: "jschar \<Rightarrow> nat list" where
  \<comment> \<open>The bytes of one code unit that is not part of a surrogate pair.\<close>
  "utf8_unit c =
     (if c < 128 then [c]
      else if c < 2048 then [192 + c div 64, 128 + c mod 64]
      else if hiSurrogate c \<or> loSurrogate c then [239, 191, 189]
      else [224 + c div 4096, 128 + (c div 64) mod 64, 128 + c mod 64])"

definition utf8_pair :: "jschar \<Rightarrow> jschar \<Rightarrow> nat list" where
  \<comment> \<open>The bytes of the code point a surrogate pair stands for.\<close>
  "utf8_pair h l =
     (let cp = 65536 + (h - 55296) * 1024 + (l - 56320)
      in [240 + cp div 262144, 128 + (cp div 4096) mod 64,
          128 + (cp div 64) mod 64, 128 + cp mod 64])"

fun utf8 :: "jsstring \<Rightarrow> nat list" where
  "utf8 [] = []"
| "utf8 [c] = utf8_unit c"
| "utf8 (c # d # cs) =
     (if hiSurrogate c \<and> loSurrogate d then utf8_pair c d @ utf8 cs
      else utf8_unit c @ utf8 (d # cs))"

definition b64char :: "nat \<Rightarrow> jschar" where
  \<comment> \<open>The alphabet: \<open>A\<close>-\<open>Z\<close>, \<open>a\<close>-\<open>z\<close>, \<open>0\<close>-\<open>9\<close>, \<open>+\<close>, \<open>/\<close>.\<close>
  "b64char n =
     (if n < 26 then 65 + n
      else if n < 52 then 97 + (n - 26)
      else if n < 62 then 48 + (n - 52)
      else if n = 62 then 43
      else 47)"

fun base64 :: "nat list \<Rightarrow> jsstring" where
  "base64 [] = []"
| "base64 [a] = [b64char (a div 4), b64char ((a mod 4) * 16), 61, 61]"
| "base64 [a, b] =
     [b64char (a div 4), b64char ((a mod 4) * 16 + b div 16), b64char ((b mod 16) * 4), 61]"
| "base64 (a # b # c # bs) =
     [b64char (a div 4), b64char ((a mod 4) * 16 + b div 16),
      b64char ((b mod 16) * 4 + c div 64), b64char (c mod 64)] @ base64 bs"

definition Buffer_base64 :: "jsstring \<Rightarrow> jsstring" where
  "Buffer_base64 s = base64 (utf8 s)"

text \<open>
  The decoders, for the claim that the encoding of a URL can be reversed. A string is
  well formed when its code units are 16-bit and every surrogate stands in a pair.
\<close>

definition b64val :: "jschar \<Rightarrow> nat" where
  "b64val c =
     (if 65 \<le> c \<and> c \<le> 90 then c - 65
      else if 97 \<le> c \<and> c \<le> 122 then c - 97 + 26
      else if 48 \<le> c \<and> c \<le> 57 then c - 48 + 52
      else if c = 43 then 62
      else 63)"

fun unbase64 :: "jsstring \<Rightarrow> nat list" where
  "unbase64 (a # b # c # d # cs) =
     (if c = 61 then [b64val a * 4 + b64val b div 16]
      else if d = 61
      then [b64val a * 4 + b64val b div 16, (b64val b mod 16) * 16 + b64val c div 4]
      else [b64val a * 4 + b64val b div 16, (b64val b mod 16) * 16 + b64val c div 4,
            (b64val c mod 4) * 64 + b64val d] @ unbase64 cs)"
| "unbase64 cs = []"

fun unutf8 :: "nat list \<Rightarrow> jsstring" where
  "unutf8 [] = []"
| "unutf8 (a # bs) =
     (if a < 128 then a # unutf8 bs
      else if a < 224 then
        (case bs of
           b # r \<Rightarrow> ((a - 192) * 64 + (b - 128)) # unutf8 r
         | [] \<Rightarrow> [])
      else if a < 240 then
        (case bs of
           b # c # r \<Rightarrow> ((a - 224) * 4096 + (b - 128) * 64 + (c - 128)) # unutf8 r
         | _ \<Rightarrow> [])
      else
        (case bs of
           b # c # d # r \<Rightarrow>
             (let cp = (a - 240) * 262144 + (b - 128) * 4096 + (c - 128) * 64 + (d - 128)
              in (55296 + (cp - 65536) div 1024) # (56320 + (cp - 65536) mod 1024) # unutf8 r)
         | _ \<Rightarrow> []))"

fun wellFormed :: "jsstring \<Rightarrow> bool" where
  "wellFormed [] = True"
| "wellFormed [c] = (c < 65536 \<and> \<not> hiSurrogate c \<and> \<not> loSurrogate c)"
| "wellFormed (c # d # cs) =
     (c < 65536
      \<and> (if hiSurrogate c then loSurrogate d \<and> wellFormed cs
          else \<not> loSurrogate c \<and> wellFormed (d # cs)))"

text \<open>
  \<open>crypto.randomUUID()\<close> is read from outside the program: its successive results are the
  stream \<open>uuids\<close>; the counter \<open>n\<close> says how many have been drawn and is returned advanced
  when one more is.
\<close>

definition createId :: "(nat \<Rightarrow> jsstring) \<Rightarrow> nat \<Rightarrow> RawApifyListing \<Rightarrow> jsstring \<times> nat" where
  "createId uuids n item =
     (if truthy_id (raw_id item) then (String_id (the (raw_id item)), n)
      else if truthy_str (raw_url item) then (Buffer_base64 (the (raw_url item)), n)
      else (uuids n, Suc n))"

definition sampleUuids :: "nat \<Rightarrow> jsstring" where
  \<comment> \<open>One stream of results, for the concrete instances below.\<close>
  "sampleUuids k = str ''uuid-'' @ showNat k"

section \<open>The normalizer\<close>

definition transformListing ::
  "(nat \<Rightarrow> jsstring) \<Rightarrow> nat \<Rightarrow> RawApifyListing \<Rightarrow> RealEstateItem \<times> nat" where
  "transformListing uuids n item =
     (let size = nullish (raw_size item) (nullish (raw_area item)
                   (parseSize (orElse (raw_description item) (orElse (raw_title item) []))));
          price = nullish (raw_price item) (parsePrice (orElse (raw_description item) []));
          ppm = (if truthy size \<and> truthy price
                 then Some (Math_round (js_div (the price) (the size))) else None);
          idn = createId uuids n item
      in (\<lparr> itemId = fst idn,
            title = orElse (raw_title item)
                      (str ''Bez n'' @ [225] @ str ''zvu''),
            url = orElse (raw_url item) (str ''#''),
            location = raw_locality item,
            price = price,
            sizeM2 = size,
            rooms = nullish (raw_rooms item)
                      (parseRooms (orElse (raw_title item) (orElse (raw_description item) []))),
            images = raw_images item,
            description = raw_description item,
            raw = item,
            derived = \<lparr> pricePerM2 = ppm,
                        derived_sizeM2 = size,
                        layoutLabel =
                          deriveLayoutLabel
                            (orElse (raw_title item) (orElse (raw_description item) [])) \<rparr>,
            aiScore = None,
            aiReason = None,
            aiHighlights = None \<rparr>,
          snd idn))"

fun transformAll ::
  "(nat \<Rightarrow> jsstring) \<Rightarrow> nat \<Rightarrow> RawApifyListing list \<Rightarrow> RealEstateItem list" where
  \<comment> \<open>\<open>deduped.map(transformListing)\<close>, the counter of drawn UUIDs threaded through.\<close>
  "transformAll uuids n [] = []"
| "transformAll uuids n (x # xs) =
     (let r = transformListing uuids n x
      in fst r # transformAll uuids (snd r) xs)"

section \<open>The deduplicator\<close>

text \<open>
  The \<open>Map\<close> is an association list in insertion order. \<open>rnd k\<close> is the text
  \<open>String(Math.random())\<close> of the \<open>k\<close>-th call; \<open>Math.random\<close> is called only for a
  listing with neither URL nor identifier.
\<close>

definition identityKey :: "(nat \<Rightarrow> jsstring) \<Rightarrow> nat \<Rightarrow> RawApifyListing \<Rightarrow> jsstring \<times> nat" where
  \<comment> \<open>\<open>item.url ?? String(item.id ?? Math.random())\<close>\<close>
  "identityKey rnd n item =
     (case raw_url item of
        Some u \<Rightarrow> (u, n)
      | None \<Rightarrow>
          (case raw_id item of
             Some i \<Rightarrow> (String_id i, n)
           | None \<Rightarrow> (rnd n, Suc n)))"

fun dedupLoop ::
  "(nat \<Rightarrow> jsstring) \<Rightarrow> nat \<Rightarrow> (jsstring \<times> RawApifyListing) list \<Rightarrow> RawApifyListing list
     \<Rightarrow> (jsstring \<times> RawApifyListing) list" where
  \<comment> \<open>The \<open>forEach\<close>: a key not yet in the map is appended with its listing.\<close>
  "dedupLoop rnd n m [] = m"
| "dedupLoop rnd n m (item # listings) =
     (let kn = identityKey rnd n item
      in dedupLoop rnd (snd kn)
           (if map_of m (fst kn) = None then m @ [(fst kn, item)] else m) listings)"

definition deduplicate :: "(nat \<Rightarrow> jsstring) \<Rightarrow> RawApifyListing list \<Rightarrow> RawApifyListing list" where
  \<comment> \<open>\<open>Array.from(map.values())\<close>\<close>
  "deduplicate rnd listings = map snd (dedupLoop rnd 0 [] listings)"

section \<open>The filter\<close>

definition passes :: "NormalizedSearchParams \<Rightarrow> RealEstateItem \<Rightarrow> bool" where
  \<comment> \<open>The predicate given to \<open>transformed.filter\<close>.\<close>
  "passes params item =
     (if truthy (priceM2Max params) \<and> truthy (pricePerM2 (derived item))
         \<and> js_lt (the (priceM2Max params)) (the (pricePerM2 (derived item)))
      then False
      else if truthy (roomsFrom params) \<and> truthy (rooms item)
              \<and> js_lt (the (rooms item)) (the (roomsFrom params))
      then False
      else True)"

definition postProcessListings ::
  "(nat \<Rightarrow> jsstring) \<Rightarrow> (nat \<Rightarrow> jsstring) \<Rightarrow> RawApifyListing list
     \<Rightarrow> NormalizedSearchParams \<Rightarrow> RealEstateItem list" where
  "postProcessListings uuids rnd listings params =
     (let deduped = deduplicate rnd listings;
          transformed = transformAll uuids 0 deduped
      in filter (passes params) transformed)"

section \<open>The score merger\<close>

definition scoreMap :: "ScoreResult list \<Rightarrow> jsstring \<Rightarrow> ScoreResult option" where
  \<comment> \<open>\<open>new Map(scores.map((s) => [s.id, s]))\<close> with \<open>map.get\<close>: the entries are set in
      order, so a later entry replaces an earlier one with the same id.\<close>
  "scoreMap scores = foldl (\<lambda>m s. m(score_id s \<mapsto> s)) Map.empty scores"

definition mergeScores :: "RealEstateItem list \<Rightarrow> ScoreResult list \<Rightarrow> RealEstateItem list" where
  "mergeScores items scores =
     map (\<lambda>item.
            case scoreMap scores (itemId item) of
              None \<Rightarrow> item
            | Some score \<Rightarrow>
                item\<lparr> aiScore := score_aiScore score,
                      aiReason := score_aiReason score,
                      aiHighlights := score_aiHighlights score \<rparr>)
         items"

section \<open>The scoring routine\<close>

text \<open>
  Two library functions are parameters of the model: \<open>JSON_parse\<close>, with \<open>None\<close> for the
  \<open>SyntaxError\<close> that \<open>JSON.parse\<close> throws on a text that is not JSON, and \<open>conv\<close>, the
  conversion to a number of a string, an array or an object. An object is the list of its
  own properties, each name once.
\<close>

record OpenAIScoreSchema =
  score :: number
  reasoning :: json
  highlights :: json

definition ToNumber :: "(json \<Rightarrow> number) \<Rightarrow> json option \<Rightarrow> number" where
  \<comment> \<open>The conversion \<open>Math.max\<close> applies to its argument; \<open>None\<close> is \<open>undefined\<close>.\<close>
  "ToNumber conv v =
     (case v of
        None \<Rightarrow> NaN
      | Some JNull \<Rightarrow> Num 0
      | Some (JBool b) \<Rightarrow> Num (if b then 1 else 0)
      | Some (JNum r) \<Rightarrow> r
      | Some (JStr t) \<Rightarrow> conv (JStr t)
      | Some (JArr xs) \<Rightarrow> conv (JArr xs)
      | Some (JObj kvs) \<Rightarrow> conv (JObj kvs))"

definition getProp :: "json \<Rightarrow> jsstring \<Rightarrow> json option" where
  \<comment> \<open>\<open>parsed.name\<close> for a value other than \<open>null\<close>: an object's own property, and
      \<open>undefined\<close> on anything else.\<close>
  "getProp v name = (case v of JObj kvs \<Rightarrow> map_of kvs name | _ \<Rightarrow> None)"

definition orDefault :: "json option \<Rightarrow> json \<Rightarrow> json" where
  \<comment> \<open>\<open>v ?? d\<close> on a property read: \<open>undefined\<close> and \<open>null\<close> give the default.\<close>
  "orDefault v d = (case v of None \<Rightarrow> d | Some JNull \<Rightarrow> d | Some w \<Rightarrow> w)"

definition parseFailure :: OpenAIScoreSchema where
  \<comment> \<open>What the \<open>catch\<close> block returns.\<close>
  "parseFailure =
     \<lparr> score = Num 0,
       reasoning = JStr (str ''OpenAI response could not be parsed.''),
       highlights = JArr [] \<rparr>"

definition parseScore ::
  "(jsstring \<Rightarrow> json option) \<Rightarrow> (json \<Rightarrow> number) \<Rightarrow> jsstring \<Rightarrow> OpenAIScoreSchema" where
  \<comment> \<open>The \<open>try\<close> block fails when \<open>JSON.parse\<close> throws, and when the text parses to
      \<open>null\<close>, of which \<open>parsed.score\<close> cannot be read.\<close>
  "parseScore JSON_parse conv response =
     (case JSON_parse response of
        None \<Rightarrow> parseFailure
      | Some JNull \<Rightarrow> parseFailure
      | Some parsed \<Rightarrow>
          \<lparr> score = Math_min (Num 100)
                      (Math_max (Num 0) (ToNumber conv (getProp parsed (str ''score'')))),
            reasoning = orDefault (getProp parsed (str ''reasoning'')) (JStr []),
            highlights = orDefault (getProp parsed (str ''highlights'')) (JArr []) \<rparr>)"

datatype error = NotConfigured | OracleFailed

record Env =
  OPENAI_API_KEY :: "jsstring option"
  OPENAI_MODEL :: "jsstring option"

text \<open>
  The parameter \<open>orc\<close> stands for \<open>client.chat.completions.create\<close>: given the model's name, the
  number of the call and the listing the prompt is built from, it fails (the promise is
  rejected, or the completion has no \<open>choices\<close> to read) or yields
  \<open>completion.choices[0]?.message?.content\<close>, \<open>None\<close> when there is none.
\<close>

type_synonym scoring = "jsstring \<Rightarrow> nat \<Rightarrow> RealEstateItem \<Rightarrow> error + jsstring option"

definition scoreOf ::
  "(jsstring \<Rightarrow> json option) \<Rightarrow> (json \<Rightarrow> number) \<Rightarrow> RealEstateItem \<Rightarrow> jsstring option
     \<Rightarrow> ScoreResult" where
  \<comment> \<open>The body of the loop after the call: the entry pushed for one listing.\<close>
  "scoreOf JSON_parse conv item content =
     (let message = orElse content (str ''{}'');
          parsed = parseScore JSON_parse conv message
      in \<lparr> score_id = itemId item,
           score_aiScore = Some (score parsed),
           score_aiReason = Some (reasoning parsed),
           score_aiHighlights = Some (highlights parsed) \<rparr>)"

fun scoreLoop ::
  "(jsstring \<Rightarrow> json option) \<Rightarrow> (json \<Rightarrow> number) \<Rightarrow> (nat \<Rightarrow> RealEstateItem \<Rightarrow> error + jsstring option)
     \<Rightarrow> nat \<Rightarrow> RealEstateItem list \<Rightarrow> ScoreResult list \<Rightarrow> error + ScoreResult list" where
  "scoreLoop JSON_parse conv call k [] results = Inr results"
| "scoreLoop JSON_parse conv call k (item # items) results =
     (case call k item of
        Inl e \<Rightarrow> Inl e
      | Inr content \<Rightarrow>
          scoreLoop JSON_parse conv call (Suc k) items
            (results @ [scoreOf JSON_parse conv item content]))"

definition scoreRealEstateItems ::
  "Env \<Rightarrow> (jsstring \<Rightarrow> json option) \<Rightarrow> (json \<Rightarrow> number) \<Rightarrow> scoring \<Rightarrow> RealEstateItem list
     \<Rightarrow> error + ScoreResult list" where
  "scoreRealEstateItems env JSON_parse conv orc items =
     (if items = [] then Inr []
      else if \<not> truthy_str (OPENAI_API_KEY env) then Inl NotConfigured
      else scoreLoop JSON_parse conv
             (orc (orElse (OPENAI_MODEL env) (str ''gpt-4.1-mini''))) 0 items [])"

section \<open>The specification's readings and the concrete instances\<close>

text \<open>
  \<open>searchSchema_ok\<close> is what \<open>searchSchema\<close> admits of the two parameters the filter reads:
  a supplied bound is a positive finite number.
\<close>

definition positive :: "number \<Rightarrow> bool" where
  "positive a = (case a of Num x \<Rightarrow> 0 < x | _ \<Rightarrow> False)"

definition searchSchema_ok :: "NormalizedSearchParams \<Rightarrow> bool" where
  "searchSchema_ok params =
     ((case priceM2Max params of Some m \<Rightarrow> positive m | None \<Rightarrow> True)
      \<and> (case roomsFrom params of Some r \<Rightarrow> positive r | None \<Rightarrow> True))"

definition spec_rejected :: "NormalizedSearchParams \<Rightarrow> RealEstateItem \<Rightarrow> bool" where
  \<comment> \<open>The specification's rule: a supplied bound, a known field, and the bound violated.\<close>
  "spec_rejected params item =
     ((case priceM2Max params of
         Some m \<Rightarrow> (case pricePerM2 (derived item) of Some p \<Rightarrow> js_lt m p | None \<Rightarrow> False)
       | None \<Rightarrow> False)
      \<or> (case roomsFrom params of
           Some r \<Rightarrow> (case rooms item of Some k \<Rightarrow> js_lt k r | None \<Rightarrow> False)
         | None \<Rightarrow> False))"

definition rejected :: "NormalizedSearchParams \<Rightarrow> RealEstateItem \<Rightarrow> bool" where
  \<comment> \<open>The same rule with a room count of zero taken as unknown.\<close>
  "rejected params item =
     ((case priceM2Max params of
         Some m \<Rightarrow> (case pricePerM2 (derived item) of Some p \<Rightarrow> js_lt m p | None \<Rightarrow> False)
       | None \<Rightarrow> False)
      \<or> (case roomsFrom params of
           Some r \<Rightarrow>
             (case rooms item of Some k \<Rightarrow> k \<noteq> Num 0 \<and> js_lt k r | None \<Rightarrow> False)
         | None \<Rightarrow> False))"

text \<open>
  The specification's deduplicator, in its own words: the identity key of a listing is
  its URL if present, else its identifier, stringified, if present, else a fresh random
  key; and of the listings with one key the first seen is kept, in the order of the input.
\<close>

fun specKeys :: "(nat \<Rightarrow> jsstring) \<Rightarrow> nat \<Rightarrow> RawApifyListing list \<Rightarrow> jsstring list" where
  "specKeys rnd n [] = []"
| "specKeys rnd n (item # listings) =
     (case raw_url item of
        Some u \<Rightarrow> u # specKeys rnd n listings
      | None \<Rightarrow>
          (case raw_id item of
             Some i \<Rightarrow> String_id i # specKeys rnd n listings
           | None \<Rightarrow> rnd n # specKeys rnd (Suc n) listings))"

fun firstSeen :: "jsstring list \<Rightarrow> (jsstring \<times> 'a) list \<Rightarrow> (jsstring \<times> 'a) list" where
  \<comment> \<open>The entries whose key is not among \<open>seen\<close> and not the key of an earlier entry.\<close>
  "firstSeen seen [] = []"
| "firstSeen seen (kv # kvs) =
     (if fst kv \<in> set seen then firstSeen seen kvs
      else kv # firstSeen (seen @ [fst kv]) kvs)"

definition specDeduplicate ::
  "(nat \<Rightarrow> jsstring) \<Rightarrow> RawApifyListing list \<Rightarrow> (jsstring \<times> RawApifyListing) list" where
  \<comment> \<open>The listings the specification keeps, each with its identity key.\<close>
  "specDeduplicate rnd listings = firstSeen [] (zip (specKeys rnd 0 listings) listings)"

definition fixedKey :: "RawApifyListing \<Rightarrow> jsstring option" where
  \<comment> \<open>The identity key of a listing that has a URL or an identifier.\<close>
  "fixedKey item =
     (case raw_url item of
        Some u \<Rightarrow> Some u
      | None \<Rightarrow> (case raw_id item of Some i \<Rightarrow> Some (String_id i) | None \<Rightarrow> None))"

definition emptyListing :: RawApifyListing where
  "emptyListing =
     \<lparr> raw_id = None, raw_url = None, raw_title = None, raw_locality = None,
       raw_description = None, raw_price = None, raw_size = None, raw_area = None,
       raw_rooms = None, raw_images = None \<rparr>"

definition scenarioTitle :: jsstring where
  \<comment> \<open>The title of the scenario; 225 and 253 are its two accented letters.\<close>
  "scenarioTitle = str ''Kr'' @ [225] @ str ''sn'' @ [253] @ str '' byt 2+kk, 55 m2''"

definition scenarioListing :: RawApifyListing where
  "scenarioListing =
     emptyListing\<lparr> raw_title := Some scenarioTitle,
                   raw_description := Some (str ''Cena 4500000 Kc'') \<rparr>"

definition titleOnlyListing :: RawApifyListing where
  "titleOnlyListing = emptyListing\<lparr> raw_title := Some scenarioTitle \<rparr>"

definition itemOf :: "RawApifyListing \<Rightarrow> RealEstateItem" where
  \<comment> \<open>One listing normalized on its own.\<close>
  "itemOf listing = fst (transformListing sampleUuids 0 listing)"

definition sampleRnd :: "nat \<Rightarrow> jsstring" where
  \<comment> \<open>One stream of \<open>String(Math.random())\<close>, for the concrete instances below.\<close>
  "sampleRnd k = str ''0.'' @ showNat (Suc k)"

definition zeroPriceListing :: RawApifyListing where
  "zeroPriceListing = emptyListing\<lparr> raw_price := Some (Num 0), raw_size := Some (Num 50) \<rparr>"

definition pricedListing :: RawApifyListing where
  "pricedListing =
     emptyListing\<lparr> raw_price := Some (Num 4500000), raw_size := Some (Num 55) \<rparr>"

definition thirdsListing :: RawApifyListing where
  \<comment> \<open>A quotient that is not a double: the code rounds it before \<open>Math.round\<close>.\<close>
  "thirdsListing =
     emptyListing\<lparr> raw_price := Some (Num 6755399441055745), raw_size := Some (Num 3) \<rparr>"

definition textListing :: RawApifyListing where
  \<comment> \<open>Price and size both read from the description.\<close>
  "textListing = emptyListing\<lparr> raw_description := Some (str ''Cena 3000150 Kc, 47.2 m2'') \<rparr>"

definition roomsFromParams :: "number \<Rightarrow> NormalizedSearchParams" where
  "roomsFromParams r =
     \<lparr> city = str ''Praha'', priceMax = None, priceM2Max = None, roomsFrom = Some r,
       search_keywords = [] \<rparr>"

definition roomsListing :: "number \<Rightarrow> RawApifyListing" where
  "roomsListing k = emptyListing\<lparr> raw_rooms := Some k \<rparr>"

definition dupA :: RawApifyListing where
  "dupA = emptyListing\<lparr> raw_url := Some (str ''https://x/1''), raw_title := Some (str ''A'') \<rparr>"

definition dupB :: RawApifyListing where
  "dupB = emptyListing\<lparr> raw_url := Some (str ''https://x/1''), raw_title := Some (str ''B'') \<rparr>"

definition idListing :: "rawid \<Rightarrow> RawApifyListing" where
  "idListing i = emptyListing\<lparr> raw_id := Some i, raw_url := Some (str ''https://x/1'') \<rparr>"

definition scoreFor :: "jsstring \<Rightarrow> number \<Rightarrow> ScoreResult" where
  "scoreFor i v =
     \<lparr> score_id = i, score_aiScore = Some v, score_aiReason = Some (JStr (str ''ok'')),
       score_aiHighlights = Some (JArr []) \<rparr>"

definition sampleParse :: "jsstring \<Rightarrow> json option" where
  \<comment> \<open>\<open>JSON.parse\<close> on the texts of the instances below: the empty object, an object with
      a score of 150, and a text that is not JSON.\<close>
  "sampleParse s =
     (if s = str ''{}'' then Some (JObj [])
      else if s = str ''{'' @ [34] @ str ''score'' @ [34] @ str '':150}''
      then Some (JObj [(str ''score'', JNum (Num 150))])
      else None)"

definition sampleConv :: "json \<Rightarrow> number" where
  "sampleConv v = NaN"

definition sampleEnv :: Env where
  "sampleEnv = \<lparr> OPENAI_API_KEY = Some (str ''sk-test''), OPENAI_MODEL = None \<rparr>"

definition sampleScoring :: scoring where
  \<comment> \<open>The first answer is not JSON, every later one is an object with a score of 150.\<close>
  "sampleScoring model k item =
     Inr (Some (if k = 0 then str ''not json''
                else str ''{'' @ [34] @ str ''score'' @ [34] @ str '':150}''))"

definition silentScoring :: scoring where
  \<comment> \<open>Every completion comes without content.\<close>
  "silentScoring model k item = Inr None"

section \<open>Evaluating the numbers and the extractors\<close>

lemma floor_rat_numeral [simp]:
  "\<lfloor>(numeral a :: rat) / numeral b\<rfloor> = numeral a div numeral b"
  using floor_divide_of_int_eq [of "numeral a" "numeral b", where ?'a = rat] by simp

lemmas num_eval = toDouble_def scale.simps roundHalfEven_def Let_def

lemmas re_defs =
  sizeRe_def priceRe_def roomsRe_def roomsRe2_def layoutRe_def kk_def Plus_def AtLeast2_def
  ch_def chi_def sup2_def digit_def space_def grp_def orElse_def str_def decimal_def
  Number_digits_def parseFloat_def

lemma toDouble_4500000: "toDouble 4500000 = Num 4500000"
  by (simp add: num_eval)

lemma toDouble_55: "toDouble 55 = Num 55"
  by (simp add: num_eval)

lemma toDouble_2: "toDouble 2 = Num 2"
  by (simp add: num_eval)

lemma parseSize_description: "parseSize (str ''Cena 4500000 Kc'') = None"
  by (simp add: parseSize_def re_defs)

lemma parsePrice_description: "parsePrice (str ''Cena 4500000 Kc'') = Some (Num 4500000)"
  by (simp add: parsePrice_def re_defs toDouble_4500000)

lemma parseRooms_title: "parseRooms scenarioTitle = Some (Num 2)"
  by (simp add: scenarioTitle_def parseRooms_def re_defs toDouble_2)

lemma deriveLayoutLabel_title: "deriveLayoutLabel scenarioTitle = Some (str ''2+kk'')"
  by (simp add: scenarioTitle_def deriveLayoutLabel_def re_defs)

lemma parseSize_title: "parseSize scenarioTitle = Some (Num 55)"
  by (simp add: scenarioTitle_def parseSize_def re_defs toDouble_55)

lemma quotient_scenario:
  "Math_round (js_div (Num 4500000) (Num 55)) = Num 81818"
  by (simp add: Math_round_def js_div_def num_eval)

lemma quotient_thirds:
  "js_div (Num 6755399441055745) (Num 3) = Num (4503599627370497 / 2)"
  "Math_round (js_div (Num 6755399441055745) (Num 3)) = Num 2251799813685249"
  by (simp_all add: Math_round_def js_div_def num_eval)

lemma toDouble_472: "toDouble (472 / 10) = Num (3321404725185741 / 70368744177664)"
  by (simp add: num_eval)

lemma toDouble_3000150: "toDouble 3000150 = Num 3000150"
  by (simp add: num_eval)

lemma quotient_text:
  "Math_round (js_div (Num 3000150) (Num (3321404725185741 / 70368744177664))) = Num 63562"
  by (simp add: Math_round_def js_div_def num_eval)

lemma parse_text:
  "parsePrice (str ''Cena 3000150 Kc, 47.2 m2'') = Some (Num 3000150)"
  "parseSize (str ''Cena 3000150 Kc, 47.2 m2'') = Some (Num (3321404725185741 / 70368744177664))"
proof -
  show "parsePrice (str ''Cena 3000150 Kc, 47.2 m2'') = Some (Num 3000150)"
    by (simp add: parsePrice_def re_defs toDouble_3000150)
  have "parseSize (str ''Cena 3000150 Kc, 47.2 m2'') = Some (toDouble (472 / 10))"
    by (simp add: parseSize_def re_defs)
  then show "parseSize (str ''Cena 3000150 Kc, 47.2 m2'')
               = Some (Num (3321404725185741 / 70368744177664))"
    by (simp only: toDouble_472)
qed

section \<open>The normalizer\<close>

text \<open>
  C1, as the code has it. The scenario's listing normalizes to price 4500000, rooms 2 and
  layout label \<open>2+kk\<close>, with no size and no price per square metre: the size is looked for
  in the description when there is one, and in the title only when there is none. For any
  listing without explicit size and area, the size is \<open>parseSize\<close> of the description,
  else of the title, else of the empty text.
\<close>

theorem scenario_normalized:
  "sizeM2 (fst (transformListing uuids n scenarioListing)) = None
   \<and> price (fst (transformListing uuids n scenarioListing)) = Some (Num 4500000)
   \<and> rooms (fst (transformListing uuids n scenarioListing)) = Some (Num 2)
   \<and> layoutLabel (derived (fst (transformListing uuids n scenarioListing))) = Some (str ''2+kk'')
   \<and> pricePerM2 (derived (fst (transformListing uuids n scenarioListing))) = None
   \<and> (raw_size item = None \<and> raw_area item = None \<longrightarrow>
         sizeM2 (fst (transformListing uuids n item))
           = (case raw_description item of
                Some d \<Rightarrow> parseSize d
              | None \<Rightarrow> (case raw_title item of Some t \<Rightarrow> parseSize t | None \<Rightarrow> parseSize [])))"
  using parseSize_description parsePrice_description parseRooms_title deriveLayoutLabel_title
  by (simp add: transformListing_def scenarioListing_def emptyListing_def nullish_def truthy_def
        Let_def orElse_def split: option.splits)

theorem scenario_normalized_witness:
  "raw_size titleOnlyListing = None \<and> raw_area titleOnlyListing = None
   \<and> raw_description titleOnlyListing = None
   \<and> sizeM2 (fst (transformListing sampleUuids 0 titleOnlyListing)) = Some (Num 55)"
  using scenario_normalized [of sampleUuids 0 titleOnlyListing] parseSize_title
  by (simp add: titleOnlyListing_def emptyListing_def)

theorem scenario_size_not_from_title:
  "sizeM2 (fst (transformListing sampleUuids 0 scenarioListing)) \<noteq> Some (Num 55)
   \<and> pricePerM2 (derived (fst (transformListing sampleUuids 0 scenarioListing)))
       \<noteq> Some (Num 81818)"
  using parseSize_description parsePrice_description
  by (simp add: transformListing_def scenarioListing_def emptyListing_def nullish_def truthy_def
        Let_def orElse_def)

text \<open>
  C2, as the code has it. The price per square metre is present exactly when price and
  size are both present and both truthy, that is, neither zero nor NaN; it is then
  \<open>Math.round\<close> of the quotient of the two doubles, which for finite operands is the exact
  quotient rounded first to the nearest double and then to the nearest integer, a tie
  going up.
\<close>

theorem pricePerM2_present_iff:
  "(pricePerM2 (derived (fst (transformListing uuids n item))) \<noteq> None)
     = (\<exists>p s. price (fst (transformListing uuids n item)) = Some p
            \<and> sizeM2 (fst (transformListing uuids n item)) = Some s
            \<and> p \<noteq> Num 0 \<and> p \<noteq> NaN \<and> s \<noteq> Num 0 \<and> s \<noteq> NaN)
   \<and> (price (fst (transformListing uuids n item)) = Some p
        \<and> sizeM2 (fst (transformListing uuids n item)) = Some s
        \<and> p \<noteq> Num 0 \<and> p \<noteq> NaN \<and> s \<noteq> Num 0 \<and> s \<noteq> NaN
      \<longrightarrow> pricePerM2 (derived (fst (transformListing uuids n item)))
            = Some (Math_round (js_div p s)))
   \<and> (y \<noteq> 0 \<and> toDouble (x / y) = Num q
      \<longrightarrow> Math_round (js_div (Num x) (Num y)) = Num (of_int \<lfloor>q + 1 / 2\<rfloor>))"
  by (auto simp add: transformListing_def Let_def truthy_def Math_round_def js_div_def
        split: option.splits)

theorem pricePerM2_present_iff_witness:
  "price (itemOf pricedListing) = Some (Num 4500000)
   \<and> sizeM2 (itemOf pricedListing) = Some (Num 55)
   \<and> pricePerM2 (derived (itemOf pricedListing)) = Some (Num 81818)
   \<and> price (itemOf thirdsListing) = Some (Num 6755399441055745)
   \<and> sizeM2 (itemOf thirdsListing) = Some (Num 3)
   \<and> toDouble (6755399441055745 / 3) = Num (4503599627370497 / 2)
   \<and> pricePerM2 (derived (itemOf thirdsListing)) = Some (Num 2251799813685249)
   \<and> price (itemOf textListing) = Some (Num 3000150)
   \<and> sizeM2 (itemOf textListing) = Some (Num (3321404725185741 / 70368744177664))
   \<and> pricePerM2 (derived (itemOf textListing)) = Some (Num 63562)"
proof -
  have p: "price (itemOf pricedListing) = Some (Num 4500000)"
    and s: "sizeM2 (itemOf pricedListing) = Some (Num 55)"
    by (simp_all add: itemOf_def transformListing_def pricedListing_def emptyListing_def
          nullish_def Let_def)
  from pricePerM2_present_iff [of sampleUuids 0 pricedListing "Num 4500000" "Num 55"] p s
  have "pricePerM2 (derived (itemOf pricedListing))
          = Some (Math_round (js_div (Num 4500000) (Num 55)))"
    by (simp add: itemOf_def)
  then have a: "pricePerM2 (derived (itemOf pricedListing)) = Some (Num 81818)"
    by (simp only: quotient_scenario)
  have p2: "price (itemOf thirdsListing) = Some (Num 6755399441055745)"
    and s2: "sizeM2 (itemOf thirdsListing) = Some (Num 3)"
    by (simp_all add: itemOf_def transformListing_def thirdsListing_def emptyListing_def
          nullish_def Let_def)
  have q: "toDouble (6755399441055745 / 3) = Num (4503599627370497 / 2)"
    by (simp add: num_eval)
  note thirds = pricePerM2_present_iff [where uuids = sampleUuids and n = 0
      and item = thirdsListing and p = "Num 6755399441055745" and s = "Num 3"
      and x = 6755399441055745 and y = 3 and q = "4503599627370497 / 2"]
  from thirds p2 s2
  have "pricePerM2 (derived (itemOf thirdsListing))
          = Some (Math_round (js_div (Num 6755399441055745) (Num 3)))"
    by (simp add: itemOf_def)
  moreover from thirds q
  have "Math_round (js_div (Num 6755399441055745) (Num 3)) = Num 2251799813685249"
    by simp
  ultimately
  have b: "pricePerM2 (derived (itemOf thirdsListing)) = Some (Num 2251799813685249)"
    by simp
  have p3: "price (itemOf textListing) = Some (Num 3000150)"
    and s3: "sizeM2 (itemOf textListing) = Some (Num (3321404725185741 / 70368744177664))"
    using parse_text
    by (simp_all add: itemOf_def transformListing_def textListing_def emptyListing_def
          nullish_def orElse_def Let_def)
  from pricePerM2_present_iff [of sampleUuids 0 textListing "Num 3000150"
         "Num (3321404725185741 / 70368744177664)"] p3 s3
  have "pricePerM2 (derived (itemOf textListing))
          = Some (Math_round (js_div (Num 3000150) (Num (3321404725185741 / 70368744177664))))"
    by (simp add: itemOf_def)
  then have c: "pricePerM2 (derived (itemOf textListing)) = Some (Num 63562)"
    by (simp only: quotient_text)
  from p s a p2 s2 q b p3 s3 c show ?thesis by simp
qed

theorem pricePerM2_zero_price_absent:
  "price (itemOf zeroPriceListing) = Some (Num 0)
   \<and> sizeM2 (itemOf zeroPriceListing) = Some (Num 50)
   \<and> pricePerM2 (derived (itemOf zeroPriceListing)) = None"
  by (simp add: itemOf_def transformListing_def zeroPriceListing_def emptyListing_def
        nullish_def truthy_def Let_def)

text \<open>
  C10. The size among the derived attributes is the listing's size: both are the one
  value found by the explicit size, else the explicit area, else the text.
\<close>

theorem derived_size_agrees:
  "derived_sizeM2 (derived (fst (transformListing uuids n item)))
     = sizeM2 (fst (transformListing uuids n item))
   \<and> sizeM2 (fst (transformListing uuids n item))
     = (case raw_size item of
          Some v \<Rightarrow> Some v
        | None \<Rightarrow>
            (case raw_area item of
               Some a \<Rightarrow> Some a
             | None \<Rightarrow> parseSize (orElse (raw_description item) (orElse (raw_title item) []))))"
  by (simp add: transformListing_def Let_def nullish_def split: option.splits)

section \<open>The filter\<close>

lemma passes_iff:
  "searchSchema_ok params \<Longrightarrow> passes params item = (\<not> rejected params item)"
  by (auto simp add: searchSchema_ok_def positive_def passes_def rejected_def truthy_def
        js_lt_def split: option.splits jsnum.splits)

lemma rooms_itemOf: "rooms (itemOf (roomsListing k)) = Some k"
  by (simp add: itemOf_def transformListing_def roomsListing_def emptyListing_def nullish_def
        Let_def)

lemma noRooms_itemOf: "rooms (itemOf emptyListing) = None"
  by (simp add: itemOf_def transformListing_def emptyListing_def nullish_def Let_def
        parseRooms_def re_defs)

text \<open>
  C3, as the code has it. For parameters the request schema admits, the filter keeps, in
  order, exactly the listings that are not rejected, where a listing is rejected when the
  bound on the price per square metre is supplied, the listing's is known and exceeds it,
  or when the bound on rooms is supplied and the listing's room count is known, is not
  zero and lies below it. The pipeline's result is that filter over the normalized,
  deduplicated listings.
\<close>

theorem filter_rejects_exactly:
  assumes "searchSchema_ok params"
  shows "filter (passes params) items = filter (\<lambda>item. \<not> rejected params item) items
         \<and> subseq (filter (passes params) items) items
         \<and> postProcessListings uuids rnd listings params
             = filter (\<lambda>item. \<not> rejected params item)
                 (transformAll uuids 0 (deduplicate rnd listings))"
  using assms by (simp add: passes_iff postProcessListings_def Let_def cong: filter_cong)

theorem filter_rejects_exactly_witness:
  "searchSchema_ok (roomsFromParams (Num 3))
   \<and> filter (passes (roomsFromParams (Num 3)))
        [itemOf (roomsListing (Num 2)), itemOf emptyListing]
       = [itemOf emptyListing]"
proof -
  have ok: "searchSchema_ok (roomsFromParams (Num 3))"
    by (simp add: searchSchema_ok_def positive_def roomsFromParams_def)
  have "filter (passes (roomsFromParams (Num 3)))
          [itemOf (roomsListing (Num 2)), itemOf emptyListing]
        = filter (\<lambda>item. \<not> rejected (roomsFromParams (Num 3)) item)
            [itemOf (roomsListing (Num 2)), itemOf emptyListing]"
    using filter_rejects_exactly [OF ok] by blast
  also have "\<dots> = [itemOf emptyListing]"
    by (simp add: rejected_def roomsFromParams_def rooms_itemOf noRooms_itemOf js_lt_def)
  finally show ?thesis using ok by simp
qed

theorem filter_keeps_zero_rooms:
  "searchSchema_ok (roomsFromParams (Num 1))
   \<and> rooms (itemOf (roomsListing (Num 0))) = Some (Num 0)
   \<and> spec_rejected (roomsFromParams (Num 1)) (itemOf (roomsListing (Num 0)))
   \<and> filter (passes (roomsFromParams (Num 1))) [itemOf (roomsListing (Num 0))]
       = [itemOf (roomsListing (Num 0))]"
  by (simp add: searchSchema_ok_def positive_def spec_rejected_def passes_def truthy_def
        roomsFromParams_def rooms_itemOf js_lt_def)

section \<open>The deduplicator\<close>

lemma length_specKeys: "length (specKeys rnd n xs) = length xs"
  by (induction xs arbitrary: n) (simp_all split: option.splits)

lemma firstSeen_set: "set (firstSeen seen kvs) \<subseteq> set kvs"
  by (induction kvs arbitrary: seen) auto

lemma firstSeen_fresh: "k \<in> set seen \<Longrightarrow> k \<notin> fst ` set (firstSeen seen kvs)"
proof (induction kvs arbitrary: seen)
  case Nil
  then show ?case by simp
next
  case (Cons kv kvs)
  show ?case
  proof (cases "fst kv \<in> set seen")
    case True
    then show ?thesis using Cons.IH [OF Cons.prems] by simp
  next
    case False
    have "k \<in> set (seen @ [fst kv])" using Cons.prems by simp
    from Cons.IH [OF this] show ?thesis using False Cons.prems by auto
  qed
qed

lemma firstSeen_distinct: "distinct (map fst (firstSeen seen kvs))"
proof (induction kvs arbitrary: seen)
  case Nil
  then show ?case by simp
next
  case (Cons kv kvs)
  show ?case
  proof (cases "fst kv \<in> set seen")
    case True
    then show ?thesis using Cons.IH [of seen] by simp
  next
    case False
    have "fst kv \<notin> fst ` set (firstSeen (seen @ [fst kv]) kvs)"
      by (rule firstSeen_fresh) simp
    then show ?thesis using False Cons.IH [of "seen @ [fst kv]"] by simp
  qed
qed

lemma firstSeen_subseq: "subseq (firstSeen seen kvs) kvs"
  by (induction kvs arbitrary: seen) (auto intro: list_emb_Cons)

lemma firstSeen_map_of:
  "map_of (firstSeen seen kvs) k = (if k \<in> set seen then None else map_of kvs k)"
proof (induction kvs arbitrary: seen)
  case Nil
  then show ?case by simp
next
  case (Cons kv kvs)
  show ?case
  proof (cases "fst kv \<in> set seen")
    case True
    then show ?thesis using Cons.IH [of seen] by (cases kv) auto
  next
    case False
    then show ?thesis using Cons.IH [of "seen @ [fst kv]"] by (cases kv) auto
  qed
qed

lemma identityKey_specKeys:
  "specKeys rnd n (x # xs)
     = fst (identityKey rnd n x) # specKeys rnd (snd (identityKey rnd n x)) xs"
  by (simp add: identityKey_def split: option.splits)

lemma dedupLoop_firstSeen:
  "dedupLoop rnd n m xs = m @ firstSeen (map fst m) (zip (specKeys rnd n xs) xs)"
proof (induction xs arbitrary: n m)
  case Nil
  then show ?case by simp
next
  case (Cons x xs)
  let ?k = "fst (identityKey rnd n x)"
  let ?n = "snd (identityKey rnd n x)"
  have keys: "specKeys rnd n (x # xs) = ?k # specKeys rnd ?n xs"
    by (rule identityKey_specKeys)
  show ?case
  proof (cases "map_of m ?k = None")
    case True
    then have fresh: "?k \<notin> set (map fst m)" by (simp add: map_of_eq_None_iff)
    have "dedupLoop rnd n m (x # xs) = dedupLoop rnd ?n (m @ [(?k, x)]) xs"
      by (simp add: Let_def True)
    also have "\<dots> = (m @ [(?k, x)])
                 @ firstSeen (map fst (m @ [(?k, x)])) (zip (specKeys rnd ?n xs) xs)"
      by (rule Cons.IH)
    also have "\<dots> = m @ firstSeen (map fst m) (zip (specKeys rnd n (x # xs)) (x # xs))"
      unfolding keys using fresh by simp
    finally show ?thesis .
  next
    case False
    then have seen: "?k \<in> set (map fst m)" by (simp add: map_of_eq_None_iff)
    have "dedupLoop rnd n m (x # xs) = dedupLoop rnd ?n m xs"
      by (simp add: Let_def False)
    also have "\<dots> = m @ firstSeen (map fst m) (zip (specKeys rnd ?n xs) xs)"
      by (rule Cons.IH)
    also have "\<dots> = m @ firstSeen (map fst m) (zip (specKeys rnd n (x # xs)) (x # xs))"
      unfolding keys using seen by simp
    finally show ?thesis .
  qed
qed

lemma deduplicate_spec: "deduplicate rnd xs = map snd (specDeduplicate rnd xs)"
  using dedupLoop_firstSeen [of rnd 0 "[]" xs] by (simp add: deduplicate_def specDeduplicate_def)

lemma later_duplicate_dropped:
  "map_of m u \<noteq> None \<Longrightarrow> raw_url b = Some u \<Longrightarrow>
   dedupLoop rnd n m (mid @ b # post) = dedupLoop rnd n m (mid @ post)"
proof (induction mid arbitrary: n m)
  case Nil
  have "identityKey rnd n b = (u, n)" using Nil(2) by (simp add: identityKey_def)
  then show ?case by (simp add: Let_def Nil(1))
next
  case (Cons x mid)
  let ?k = "fst (identityKey rnd n x)"
  let ?n = "snd (identityKey rnd n x)"
  let ?m = "if map_of m ?k = None then m @ [(?k, x)] else m"
  obtain y where "map_of m u = Some y" using Cons.prems(1) by auto
  then have "map_of ?m u \<noteq> None" by (simp add: map_add_def)
  from Cons.IH [OF this Cons.prems(2), of ?n] show ?case by (simp add: Let_def)
qed

lemma same_url_dropped:
  "raw_url a = Some u \<Longrightarrow> raw_url b = Some u \<Longrightarrow>
   dedupLoop rnd n m (pre @ a # mid @ b # post) = dedupLoop rnd n m (pre @ a # mid @ post)"
proof (induction pre arbitrary: n m)
  case Nil
  have key: "identityKey rnd n a = (u, n)" using Nil(1) by (simp add: identityKey_def)
  show ?case
  proof (cases "map_of m u = None")
    case True
    have "map_of (m @ [(u, a)]) u \<noteq> None" by (simp add: map_add_def True)
    from later_duplicate_dropped [OF this Nil(2), of rnd n mid post] show ?thesis
      by (simp add: Let_def key True)
  next
    case False
    from later_duplicate_dropped [OF this Nil(2), of rnd n mid post] show ?thesis
      by (simp add: Let_def key False)
  qed
next
  case (Cons x pre)
  then show ?case by (simp add: Let_def)
qed

lemma fixedKey_specKeys:
  "(k, x) \<in> set (zip (specKeys rnd n xs) xs) \<Longrightarrow> fixedKey x = Some k' \<Longrightarrow> k' = k"
  by (induction xs arbitrary: n) (auto simp: fixedKey_def split: option.splits)

lemma fixed_keys_of_kept:
  assumes "\<forall>(k, x) \<in> set kvs. \<forall>k'. fixedKey x = Some k' \<longrightarrow> k' = k"
  shows "List.map_filter fixedKey (map snd kvs)
           = map fst (filter (\<lambda>kv. fixedKey (snd kv) \<noteq> None) kvs)"
  using assms by (induction kvs) (auto simp: List.map_filter_simps split: option.splits)

lemma deduplicate_fixed_distinct:
  "distinct (List.map_filter fixedKey (deduplicate rnd xs))"
proof -
  let ?kept = "specDeduplicate rnd xs"
  have sub: "set ?kept \<subseteq> set (zip (specKeys rnd 0 xs) xs)"
    by (simp add: specDeduplicate_def firstSeen_set)
  have "\<forall>(k, x) \<in> set ?kept. \<forall>k'. fixedKey x = Some k' \<longrightarrow> k' = k"
    using sub fixedKey_specKeys by blast
  then have "List.map_filter fixedKey (map snd ?kept)
           = map fst (filter (\<lambda>kv. fixedKey (snd kv) \<noteq> None) ?kept)"
    by (rule fixed_keys_of_kept)
  moreover have "distinct (map fst (filter (\<lambda>kv. fixedKey (snd kv) \<noteq> None) ?kept))"
    using firstSeen_distinct [of "[]" "zip (specKeys rnd 0 xs) xs"]
    by (simp add: specDeduplicate_def distinct_map_filter)
  ultimately show ?thesis by (simp add: deduplicate_spec)
qed

text \<open>
  C4. Whatever \<open>Math.random\<close> returns, the deduplicator returns the listings the
  specification keeps: with each listing under its identity key (the URL if present, else
  the stringified identifier if present, else the next random text), the first listing of
  every key, in the order of the input. So the result is no longer than the input and a
  subsequence of it; the keys of the kept listings are pairwise different, and so are the
  keys of the returned listings that have a URL or an identifier; the listing kept for a
  key is the first of the input with that key; a listing whose URL an earlier listing has
  is dropped, wherever it stands; and of two listings with one URL the first alone is
  returned.
\<close>

theorem deduplicate_first_seen:
  "deduplicate rnd xs = map snd (specDeduplicate rnd xs)
   \<and> length (deduplicate rnd xs) \<le> length xs
   \<and> subseq (deduplicate rnd xs) xs
   \<and> distinct (map fst (specDeduplicate rnd xs))
   \<and> distinct (List.map_filter fixedKey (deduplicate rnd xs))
   \<and> subseq (specDeduplicate rnd xs) (zip (specKeys rnd 0 xs) xs)
   \<and> map_of (specDeduplicate rnd xs) = map_of (zip (specKeys rnd 0 xs) xs)
   \<and> (raw_url a = Some u \<and> raw_url b = Some u \<longrightarrow>
        deduplicate rnd (pre @ a # mid @ b # post) = deduplicate rnd (pre @ a # mid @ post))
   \<and> (raw_url a = Some u \<and> raw_url b = Some u \<longrightarrow> deduplicate rnd [a, b] = [a])"
proof -
  let ?kvs = "zip (specKeys rnd 0 xs) xs"
  have eq: "deduplicate rnd xs = map snd (specDeduplicate rnd xs)"
    by (rule deduplicate_spec)
  have sub: "subseq (specDeduplicate rnd xs) ?kvs"
    by (simp add: specDeduplicate_def firstSeen_subseq)
  then have "subseq (map snd (specDeduplicate rnd xs)) (map snd ?kvs)"
    by (rule subseq_map)
  then have sub2: "subseq (deduplicate rnd xs) xs"
    by (simp add: eq length_specKeys)
  then have len: "length (deduplicate rnd xs) \<le> length xs"
    by (rule list_emb_length)
  have dist: "distinct (map fst (specDeduplicate rnd xs))"
    by (simp add: specDeduplicate_def firstSeen_distinct)
  have fixed: "distinct (List.map_filter fixedKey (deduplicate rnd xs))"
    by (rule deduplicate_fixed_distinct)
  have mo: "map_of (specDeduplicate rnd xs) = map_of ?kvs"
    by (rule ext) (simp add: specDeduplicate_def firstSeen_map_of)
  have drop: "raw_url a = Some u \<and> raw_url b = Some u \<longrightarrow>
        deduplicate rnd (pre @ a # mid @ b # post) = deduplicate rnd (pre @ a # mid @ post)"
    using same_url_dropped [of a u b rnd 0 "[]" pre mid post] by (simp add: deduplicate_def)
  have two: "raw_url a = Some u \<and> raw_url b = Some u \<longrightarrow> deduplicate rnd [a, b] = [a]"
    by (simp add: deduplicate_def identityKey_def Let_def)
  from eq len sub2 dist fixed sub mo drop two show ?thesis by (intro conjI)
qed

theorem deduplicate_first_seen_witness:
  "raw_url dupA = Some (str ''https://x/1'') \<and> raw_url dupB = Some (str ''https://x/1'')
   \<and> raw_title dupA \<noteq> raw_title dupB
   \<and> deduplicate sampleRnd [dupA, dupB] = [dupA]
   \<and> deduplicate sampleRnd [dupB, emptyListing, dupA, emptyListing]
       = [dupB, emptyListing, emptyListing]"
proof -
  note t = deduplicate_first_seen [of sampleRnd "[dupA, dupB]" dupA "str ''https://x/1''" dupB
             "[]" "[]" "[]"]
  have urls: "raw_url dupA = Some (str ''https://x/1'')" "raw_url dupB = Some (str ''https://x/1'')"
    "raw_title dupA \<noteq> raw_title dupB"
    by (simp_all add: dupA_def dupB_def emptyListing_def str_def)
  have "raw_url dupA = Some (str ''https://x/1'') \<and> raw_url dupB = Some (str ''https://x/1'')
          \<longrightarrow> deduplicate sampleRnd [dupA, dupB] = [dupA]"
    using t by - (elim conjE, assumption)
  with urls have one: "deduplicate sampleRnd [dupA, dupB] = [dupA]" by simp
  have "raw_url dupB = Some (str ''https://x/1'') \<and> raw_url dupA = Some (str ''https://x/1'')
          \<longrightarrow> deduplicate sampleRnd ([] @ dupB # [emptyListing] @ dupA # [emptyListing])
                = deduplicate sampleRnd ([] @ dupB # [emptyListing] @ [emptyListing])"
    using deduplicate_first_seen [of sampleRnd "[]" dupB "str ''https://x/1''" dupA
            "[]" "[emptyListing]" "[emptyListing]"]
    by - (elim conjE, assumption)
  with urls have "deduplicate sampleRnd ([] @ dupB # [emptyListing] @ dupA # [emptyListing])
          = deduplicate sampleRnd ([] @ dupB # [emptyListing] @ [emptyListing])"
    by simp
  moreover have "deduplicate sampleRnd [dupB, emptyListing, emptyListing]
                   = [dupB, emptyListing, emptyListing]"
  proof -
    have none: "raw_url emptyListing = None" "raw_id emptyListing = None"
      by (simp_all add: emptyListing_def)
    have k1: "identityKey sampleRnd n dupB = (str ''https://x/1'', n)" for n
      by (simp add: identityKey_def urls)
    have k2: "identityKey sampleRnd 0 emptyListing = (str ''0.1'', Suc 0)"
      by (simp add: identityKey_def none sampleRnd_def showNat.simps str_def)
    have k3: "identityKey sampleRnd (Suc 0) emptyListing = (str ''0.2'', Suc (Suc 0))"
      by (simp add: identityKey_def none sampleRnd_def showNat.simps str_def)
    show ?thesis by (simp add: deduplicate_def Let_def k1 k2 k3) (simp add: str_def)
  qed
  ultimately have "deduplicate sampleRnd [dupB, emptyListing, dupA, emptyListing]
       = [dupB, emptyListing, emptyListing]" by simp
  with urls one show ?thesis by simp
qed

section \<open>The score merger\<close>

lemma scoreMap_snoc:
  "scoreMap (scores @ [s]) = (scoreMap scores)(score_id s \<mapsto> s)"
  by (simp add: scoreMap_def)

lemma scoreMap_Nil: "scoreMap [] = Map.empty"
  by (simp add: scoreMap_def)

lemma scoreMap_None_iff:
  "scoreMap scores k = None \<longleftrightarrow> k \<notin> score_id ` set scores"
  by (induction scores rule: rev_induct) (auto simp: scoreMap_snoc scoreMap_Nil)

lemma scoreMap_SomeD:
  "scoreMap scores k = Some s \<Longrightarrow> s \<in> set scores \<and> score_id s = k"
  by (induction scores rule: rev_induct)
     (auto simp: scoreMap_snoc scoreMap_Nil split: if_splits)

lemma scoreMap_last:
  "\<forall>t \<in> set post. score_id t \<noteq> score_id s \<Longrightarrow> scoreMap (pre @ s # post) (score_id s) = Some s"
proof (induction post rule: rev_induct)
  case Nil
  then show ?case by (simp add: scoreMap_snoc)
next
  case (snoc x xs)
  have "scoreMap (pre @ s # xs @ [x]) = (scoreMap (pre @ s # xs))(score_id x \<mapsto> x)"
    using scoreMap_snoc [of "pre @ s # xs" x] by simp
  with snoc show ?case by auto
qed

lemma itemId_idListing: "itemId (itemOf (idListing (IdStr (c # cs)))) = c # cs"
  by (simp add: itemOf_def transformListing_def createId_def idListing_def emptyListing_def
        truthy_id_def String_id_def Let_def)

text \<open>
  C5. The merger returns as many listings as it was given, in the same order. A listing
  whose id is the id of no score result is returned as it is, so its score fields are
  absent when they were absent, as they are for every listing the normalizer makes. A
  listing whose id is the id of a score result is returned with its three score fields set
  to that result's values and nothing else changed.
\<close>

theorem mergeScores_pointwise:
  "length (mergeScores items scores) = length items
   \<and> (i < length items \<and> itemId (items ! i) \<notin> score_id ` set scores \<longrightarrow>
         mergeScores items scores ! i = items ! i
         \<and> (aiScore (items ! i) = None \<and> aiReason (items ! i) = None
              \<and> aiHighlights (items ! i) = None \<longrightarrow>
            aiScore (mergeScores items scores ! i) = None
            \<and> aiReason (mergeScores items scores ! i) = None
            \<and> aiHighlights (mergeScores items scores ! i) = None))
   \<and> (i < length items \<and> itemId (items ! i) \<in> score_id ` set scores \<longrightarrow>
         (\<exists>s \<in> set scores. score_id s = itemId (items ! i)
             \<and> mergeScores items scores ! i =
                 (items ! i)\<lparr> aiScore := score_aiScore s,
                              aiReason := score_aiReason s,
                              aiHighlights := score_aiHighlights s \<rparr>))
   \<and> aiScore (fst (transformListing uuids n listing)) = None
   \<and> aiReason (fst (transformListing uuids n listing)) = None
   \<and> aiHighlights (fst (transformListing uuids n listing)) = None"
proof -
  have len: "length (mergeScores items scores) = length items"
    by (simp add: mergeScores_def)
  have unmatched: "mergeScores items scores ! i = items ! i"
    if "i < length items" "itemId (items ! i) \<notin> score_id ` set scores"
    using that by (simp add: mergeScores_def scoreMap_None_iff [symmetric])
  have matched: "\<exists>s \<in> set scores. score_id s = itemId (items ! i)
               \<and> mergeScores items scores ! i =
                   (items ! i)\<lparr> aiScore := score_aiScore s,
                                aiReason := score_aiReason s,
                                aiHighlights := score_aiHighlights s \<rparr>"
    if i: "i < length items" and "itemId (items ! i) \<in> score_id ` set scores"
  proof -
    from that obtain s where s: "scoreMap scores (itemId (items ! i)) = Some s"
      using scoreMap_None_iff [of scores "itemId (items ! i)"] by auto
    from scoreMap_SomeD [OF s] i s show ?thesis
      by (auto simp add: mergeScores_def)
  qed
  have fresh: "aiScore (fst (transformListing uuids n listing)) = None
     \<and> aiReason (fst (transformListing uuids n listing)) = None
     \<and> aiHighlights (fst (transformListing uuids n listing)) = None"
    by (simp add: transformListing_def Let_def)
  from len unmatched matched fresh show ?thesis by simp
qed

theorem mergeScores_pointwise_witness:
  "length (mergeScores
             [itemOf (idListing (IdStr (str ''a''))), itemOf (idListing (IdStr (str ''b'')))]
             [scoreFor (str ''b'') (Num 70)]) = 2
   \<and> mergeScores
             [itemOf (idListing (IdStr (str ''a''))), itemOf (idListing (IdStr (str ''b'')))]
             [scoreFor (str ''b'') (Num 70)] ! 0
        = itemOf (idListing (IdStr (str ''a'')))
   \<and> mergeScores
             [itemOf (idListing (IdStr (str ''a''))), itemOf (idListing (IdStr (str ''b'')))]
             [scoreFor (str ''b'') (Num 70)] ! 1
        = (itemOf (idListing (IdStr (str ''b''))))\<lparr> aiScore := Some (Num 70),
             aiReason := Some (JStr (str ''ok'')), aiHighlights := Some (JArr []) \<rparr>
   \<and> aiScore (itemOf (idListing (IdStr (str ''a'')))) = None"
proof -
  let ?a = "itemOf (idListing (IdStr (str ''a'')))"
  let ?b = "itemOf (idListing (IdStr (str ''b'')))"
  let ?out = "mergeScores [?a, ?b] [scoreFor (str ''b'') (Num 70)]"
  have ida: "itemId ?a = str ''a''" and idb: "itemId ?b = str ''b''"
    using itemId_idListing by (simp_all add: str_def)
  have len: "length ?out = 2"
    using mergeScores_pointwise [of "[?a, ?b]" "[scoreFor (str ''b'') (Num 70)]"] by simp
  have o0: "?out ! 0 = ?a"
    using mergeScores_pointwise [of "[?a, ?b]" "[scoreFor (str ''b'') (Num 70)]" 0] ida
    by (simp add: scoreFor_def str_def)
  have o1: "?out ! 1 = ?b\<lparr> aiScore := Some (Num 70),
             aiReason := Some (JStr (str ''ok'')), aiHighlights := Some (JArr []) \<rparr>"
    using mergeScores_pointwise [of "[?a, ?b]" "[scoreFor (str ''b'') (Num 70)]" 1] idb
    by (simp add: scoreFor_def str_def)
  have "aiScore ?a = None"
    using mergeScores_pointwise [of "[]" "[]" 0 sampleUuids 0 "idListing (IdStr (str ''a''))"]
    by (simp add: itemOf_def)
  with len o0 o1 show ?thesis by simp
qed

text \<open>
  C6, as the code has it. When several score results carry the id of a listing, the last
  of them in the sequence is the one whose values the listing receives.
\<close>

theorem mergeScores_last_wins:
  assumes "\<forall>t \<in> set post. score_id t \<noteq> score_id s"
    and "i < length items" and "itemId (items ! i) = score_id s"
  shows "mergeScores items (pre @ s # post) ! i =
           (items ! i)\<lparr> aiScore := score_aiScore s,
                        aiReason := score_aiReason s,
                        aiHighlights := score_aiHighlights s \<rparr>"
  using assms scoreMap_last [of post s pre] by (simp add: mergeScores_def)

theorem mergeScores_last_wins_witness:
  "mergeScores [itemOf (idListing (IdStr (str ''a'')))]
               [scoreFor (str ''a'') (Num 10), scoreFor (str ''a'') (Num 90)] ! 0
     = (itemOf (idListing (IdStr (str ''a''))))\<lparr> aiScore := Some (Num 90),
          aiReason := Some (JStr (str ''ok'')), aiHighlights := Some (JArr []) \<rparr>"
proof -
  have ida: "itemId (itemOf (idListing (IdStr (str ''a'')))) = str ''a''"
    using itemId_idListing by (simp add: str_def)
  from mergeScores_last_wins [of "[]" "scoreFor (str ''a'') (Num 90)" 0
         "[itemOf (idListing (IdStr (str ''a'')))]" "[scoreFor (str ''a'') (Num 10)]"] ida
  show ?thesis by (simp add: scoreFor_def)
qed

theorem mergeScores_first_does_not_win:
  "aiScore (mergeScores [itemOf (idListing (IdStr (str ''a'')))]
                        [scoreFor (str ''a'') (Num 10), scoreFor (str ''a'') (Num 90)] ! 0)
     = Some (Num 90)
   \<and> score_aiScore (scoreFor (str ''a'') (Num 10)) = Some (Num 10)"
proof -
  have ida: "itemId (itemOf (idListing (IdStr (str ''a'')))) = str ''a''"
    using itemId_idListing by (simp add: str_def)
  then show ?thesis
    by (simp add: mergeScores_def scoreMap_def scoreFor_def)
qed

section \<open>Identifiers\<close>

lemma Number_toString_42: "Number_toString (Num 42) = str ''42''"
  by (simp add: Number_toString_def positiveToString_def digitsAt_def decExp.simps pow10_def
        num_eval showNat.simps str_def)

lemma Number_toString_1e21: "Number_toString (Num 1000000000000000000000) = str ''1e+21''"
  by (simp add: Number_toString_def positiveToString_def digitsAt_def decExp.simps pow10_def
        num_eval showNat.simps str_def)

lemma Number_toString_fraction: "Number_toString (Num (3 / 2)) = str ''1.5''"
  by (simp add: Number_toString_def positiveToString_def digitsAt_def decExp.simps pow10_def
        num_eval showNat.simps str_def)

lemma base64_sample_url: "Buffer_base64 (str ''https://x/1'') = str ''aHR0cHM6Ly94LzE=''"
  by (simp add: Buffer_base64_def str_def utf8_unit_def hiSurrogate_def loSurrogate_def
        b64char_def)

lemma b64char_not_pad: "b64char n \<noteq> 61"
  unfolding b64char_def by (simp split: if_splits) arith

lemma b64val_b64char: "n < 64 \<Longrightarrow> b64val (b64char n) = n"
  unfolding b64char_def b64val_def by (simp split: if_splits) arith

lemma base64_group2:
  fixes a b :: nat
  assumes "b < 256"
  shows "a div 4 * 4 + ((a mod 4) * 16 + b div 16) div 16 = a"
proof -
  have "b div 16 < 16" using assms by simp
  then have "((a mod 4) * 16 + b div 16) div 16 = a mod 4" by simp
  then show ?thesis by simp
qed

lemma base64_group3:
  fixes a b c :: nat
  assumes "b < 256" "c < 256"
  shows "(((a mod 4) * 16 + b div 16) mod 16) * 16 + ((b mod 16) * 4 + c div 64) div 4 = b"
proof -
  have x: "b div 16 < 16" and y: "c div 64 < 4" using assms by simp_all
  from x have "((a mod 4) * 16 + b div 16) mod 16 = b div 16" by simp
  moreover from y have "((b mod 16) * 4 + c div 64) div 4 = b mod 16" by simp
  ultimately show ?thesis by simp
qed

lemma base64_group4:
  fixes b c :: nat
  assumes "c < 256"
  shows "(((b mod 16) * 4 + c div 64) mod 4) * 64 + c mod 64 = c"
proof -
  have y: "c div 64 < 4" using assms by simp
  then have "((b mod 16) * 4 + c div 64) mod 4 = c div 64" by simp
  then show ?thesis by simp
qed

lemma base64_bounds:
  fixes a b c :: nat
  assumes "a < 256" "b < 256" "c < 256"
  shows "a div 4 < 64" "(a mod 4) * 16 + b div 16 < 64" "(b mod 16) * 4 + c div 64 < 64"
    "c mod 64 < 64" "(a mod 4) * 16 < 64" "(b mod 16) * 4 < 64"
proof -
  have x: "b div 16 < 16" and y: "c div 64 < 4" using assms by simp_all
  have m4: "a mod 4 < 4" and m16: "b mod 16 < 16" by simp_all
  show "a div 4 < 64" using assms by simp
  show "(a mod 4) * 16 + b div 16 < 64" using x m4 by linarith
  show "(b mod 16) * 4 + c div 64 < 64" using y m16 by linarith
  show "c mod 64 < 64" by simp
  show "(a mod 4) * 16 < 64" using m4 by linarith
  show "(b mod 16) * 4 < 64" using m16 by linarith
qed

lemma unbase64_base64: "\<forall>x \<in> set bs. x < 256 \<Longrightarrow> unbase64 (base64 bs) = bs"
proof (induction bs rule: base64.induct)
  case 1
  then show ?case by simp
next
  case (2 a)
  then have a: "a < 256" by simp
  have "b64val (b64char (a div 4)) = a div 4"
    "b64val (b64char ((a mod 4) * 16)) = (a mod 4) * 16"
    using base64_bounds [OF a a a] by (simp_all add: b64val_b64char)
  moreover have "a div 4 * 4 + ((a mod 4) * 16) div 16 = a" by simp
  ultimately show ?case by (simp add: b64char_not_pad)
next
  case (3 a b)
  then have a: "a < 256" and b: "b < 256" by simp_all
  have "b64val (b64char (a div 4)) = a div 4"
    "b64val (b64char ((a mod 4) * 16 + b div 16)) = (a mod 4) * 16 + b div 16"
    "b64val (b64char ((b mod 16) * 4)) = (b mod 16) * 4"
    using base64_bounds [OF a b b] by (simp_all add: b64val_b64char)
  moreover have "(((a mod 4) * 16 + b div 16) mod 16) * 16 + ((b mod 16) * 4) div 4 = b"
    using base64_group3 [OF b, of 0 a] by simp
  ultimately show ?case using base64_group2 [OF b, of a] by (simp add: b64char_not_pad)
next
  case (4 a b c bs)
  then have a: "a < 256" and b: "b < 256" and c: "c < 256" by simp_all
  have "b64val (b64char (a div 4)) = a div 4"
    "b64val (b64char ((a mod 4) * 16 + b div 16)) = (a mod 4) * 16 + b div 16"
    "b64val (b64char ((b mod 16) * 4 + c div 64)) = (b mod 16) * 4 + c div 64"
    "b64val (b64char (c mod 64)) = c mod 64"
    using base64_bounds [OF a b c] by (simp_all add: b64val_b64char)
  moreover have "unbase64 (base64 bs) = bs" using 4 by simp
  ultimately show ?case
    using base64_group2 [OF b, of a] base64_group3 [OF b c, of a] base64_group4 [OF c, of b]
    by (simp add: b64char_not_pad)
qed

lemma split64:
  fixes n :: nat
  shows "n div 64 * 64 + n mod 64 = n"
    and "n div 4096 * 4096 + (n div 64) mod 64 * 64 + n mod 64 = n"
    and "n div 262144 * 262144 + (n div 4096) mod 64 * 4096 + (n div 64) mod 64 * 64
           + n mod 64 = n"
proof -
  show 1: "n div 64 * 64 + n mod 64 = n" by simp
  have d2: "n div 4096 = n div 64 div 64" by (simp add: div_mult2_eq)
  have 2: "n div 4096 * 64 + (n div 64) mod 64 = n div 64"
    unfolding d2 by simp
  then have "n div 4096 * 4096 + (n div 64) mod 64 * 64 = n div 64 * 64"
    by linarith
  with 1 show 3: "n div 4096 * 4096 + (n div 64) mod 64 * 64 + n mod 64 = n" by linarith
  have d3: "n div 262144 = n div 4096 div 64" by (simp add: div_mult2_eq)
  have "n div 262144 * 64 + (n div 4096) mod 64 = n div 4096"
    unfolding d3 by simp
  then have "n div 262144 * 262144 + (n div 4096) mod 64 * 4096 = n div 4096 * 4096"
    by linarith
  with 3 show "n div 262144 * 262144 + (n div 4096) mod 64 * 4096 + (n div 64) mod 64 * 64
           + n mod 64 = n" by linarith
qed

lemma unutf8_unit:
  assumes "c < 65536" "\<not> hiSurrogate c" "\<not> loSurrogate c"
  shows "unutf8 (utf8_unit c @ rest) = c # unutf8 rest"
proof -
  consider "c < 128" | "128 \<le> c" "c < 2048" | "2048 \<le> c" by linarith
  then show ?thesis
  proof cases
    case 1
    then show ?thesis by (simp add: utf8_unit_def)
  next
    case 2
    then have "c div 64 < 32" by simp
    then have "192 + c div 64 < 224" "\<not> 192 + c div 64 < 128" by simp_all
    moreover have "(192 + c div 64 - 192) * 64 + (128 + c mod 64 - 128) = c"
      using split64(1) [of c] by simp
    ultimately show ?thesis using 2 by (simp add: utf8_unit_def)
  next
    case 3
    from assms(1) have "c div 4096 < 16" by simp
    then have "224 + c div 4096 < 240" "\<not> 224 + c div 4096 < 224" by simp_all
    moreover have "(224 + c div 4096 - 224) * 4096 + (128 + (c div 64) mod 64 - 128) * 64
                    + (128 + c mod 64 - 128) = c"
      using split64(2) [of c] by simp
    ultimately show ?thesis using 3 assms by (simp add: utf8_unit_def)
  qed
qed

lemma unutf8_pair:
  assumes "hiSurrogate h" "loSurrogate l"
  shows "unutf8 (utf8_pair h l @ rest) = h # l # unutf8 rest"
proof -
  define x where "x = h - 55296"
  define y where "y = l - 56320"
  define cp where "cp = 65536 + x * 1024 + y"
  from assms have h: "h = 55296 + x" and l: "l = 56320 + y" and x: "x < 1024" and y: "y < 1024"
    unfolding hiSurrogate_def loSurrogate_def x_def y_def by linarith+
  have cp: "cp < 1114112" "65536 \<le> cp" using x y by (simp_all add: cp_def)
  have dec: "(240 + cp div 262144 - 240) * 262144 + (128 + (cp div 4096) mod 64 - 128) * 4096
              + (128 + (cp div 64) mod 64 - 128) * 64 + (128 + cp mod 64 - 128) = cp"
    using split64(3) [of cp] by simp
  have "cp - 65536 = x * 1024 + y" by (simp add: cp_def)
  with y have undo: "(cp - 65536) div 1024 = x" "(cp - 65536) mod 1024 = y" by simp_all
  have "utf8_pair h l = [240 + cp div 262144, 128 + (cp div 4096) mod 64,
                         128 + (cp div 64) mod 64, 128 + cp mod 64]"
    by (simp add: utf8_pair_def cp_def x_def y_def Let_def)
  then show ?thesis using dec undo h l by (simp add: Let_def)
qed

lemma unutf8_utf8: "wellFormed s \<Longrightarrow> unutf8 (utf8 s) = s"
proof (induction s rule: utf8.induct)
  case 1
  then show ?case by simp
next
  case (2 c)
  then show ?case using unutf8_unit [of c "[]"] by simp
next
  case (3 c d cs)
  show ?case
  proof (cases "hiSurrogate c")
    case True
    with 3 show ?thesis using unutf8_pair [of c d "utf8 cs"] by simp
  next
    case False
    with 3 show ?thesis using unutf8_unit [of c "utf8 (d # cs)"] by simp
  qed
qed

lemma utf8_unit_bytes: "c < 65536 \<Longrightarrow> \<forall>x \<in> set (utf8_unit c). x < 256"
proof -
  assume c: "c < 65536"
  then have "c div 4096 < 16" by simp
  moreover have "c < 2048 \<Longrightarrow> c div 64 < 32" by simp
  moreover have "c mod 64 < 64" "(c div 64) mod 64 < 64" by simp_all
  ultimately show ?thesis by (auto simp add: utf8_unit_def)
qed

lemma utf8_pair_bytes:
  assumes "hiSurrogate h" "loSurrogate l"
  shows "\<forall>x \<in> set (utf8_pair h l). x < 256"
proof -
  define cp where "cp = 65536 + (h - 55296) * 1024 + (l - 56320)"
  from assms have "cp < 1114112"
    unfolding hiSurrogate_def loSurrogate_def cp_def by linarith
  then have "cp div 262144 < 5" by simp
  moreover have "cp mod 64 < 64" "(cp div 64) mod 64 < 64" "(cp div 4096) mod 64 < 64"
    by simp_all
  ultimately show ?thesis by (auto simp add: utf8_pair_def cp_def Let_def)
qed

lemma utf8_bytes: "wellFormed s \<Longrightarrow> \<forall>x \<in> set (utf8 s). x < 256"
proof (induction s rule: utf8.induct)
  case 1
  then show ?case by simp
next
  case (2 c)
  then show ?case using utf8_unit_bytes [of c] by simp
next
  case (3 c d cs)
  show ?case
  proof (cases "hiSurrogate c")
    case True
    with 3 show ?thesis using utf8_pair_bytes [of c d] by auto
  next
    case False
    with 3 show ?thesis using utf8_unit_bytes [of c] by auto
  qed
qed

lemma Buffer_base64_reversible:
  "wellFormed s \<Longrightarrow> unutf8 (unbase64 (Buffer_base64 s)) = s"
  by (simp add: Buffer_base64_def unbase64_base64 utf8_bytes unutf8_utf8)

text \<open>
  C7, as the code has it. The canonical identifier is the raw identifier, stringified,
  when the raw identifier is truthy (present, and neither \<open>0\<close>, NaN nor the empty
  string); else the base64 text of the URL when the URL is present and not empty, from
  which a well-formed URL is recovered by decoding; else the next random UUID. So a record
  with a truthy identifier or a non-empty URL gets the same id whenever it is normalized,
  whatever the random source returns.
\<close>

theorem createId_priority:
  "(truthy_id (raw_id item) \<longrightarrow>
      createId uuids n item = (String_id (the (raw_id item)), n))
   \<and> (\<not> truthy_id (raw_id item) \<and> truthy_str (raw_url item) \<longrightarrow>
      createId uuids n item = (Buffer_base64 (the (raw_url item)), n)
      \<and> (wellFormed (the (raw_url item)) \<longrightarrow>
           unutf8 (unbase64 (fst (createId uuids n item))) = the (raw_url item)))
   \<and> (\<not> truthy_id (raw_id item) \<and> \<not> truthy_str (raw_url item) \<longrightarrow>
      createId uuids n item = (uuids n, Suc n))
   \<and> itemId (fst (transformListing uuids n item)) = fst (createId uuids n item)
   \<and> (truthy_id (raw_id item) \<or> truthy_str (raw_url item) \<longrightarrow>
        itemId (fst (transformListing uuids n item))
          = itemId (fst (transformListing uuids' n' item)))"
  by (simp add: createId_def transformListing_def Let_def Buffer_base64_reversible)

theorem createId_priority_witness:
  "truthy_id (raw_id (idListing (IdNum (Num 42))))
   \<and> createId sampleUuids 0 (idListing (IdNum (Num 42))) = (str ''42'', 0)
   \<and> createId sampleUuids 0 (idListing (IdNum (Num 1000000000000000000000)))
       = (str ''1e+21'', 0)
   \<and> createId sampleUuids 0 (idListing (IdNum (Num (3 / 2)))) = (str ''1.5'', 0)
   \<and> itemId (fst (transformListing sampleUuids 0 (idListing (IdNum (Num 42)))))
       = itemId (fst (transformListing sampleRnd 7 (idListing (IdNum (Num 42)))))
   \<and> \<not> truthy_id (raw_id dupA) \<and> truthy_str (raw_url dupA) \<and> wellFormed (the (raw_url dupA))
   \<and> createId sampleUuids 0 dupA = (str ''aHR0cHM6Ly94LzE='', 0)
   \<and> unutf8 (unbase64 (str ''aHR0cHM6Ly94LzE='')) = str ''https://x/1''
   \<and> \<not> truthy_id (raw_id emptyListing) \<and> \<not> truthy_str (raw_url emptyListing)
   \<and> createId sampleUuids 3 emptyListing = (str ''uuid-3'', 4)"
proof -
  have t: "truthy_id (raw_id (idListing (IdNum (Num 42))))"
    by (simp add: idListing_def emptyListing_def truthy_id_def)
  have s: "String_id (the (raw_id (idListing (IdNum (Num 42))))) = str ''42''"
    by (simp add: idListing_def emptyListing_def String_id_def Number_toString_42)
  note p = createId_priority [of "idListing (IdNum (Num 42))" sampleUuids 0 sampleRnd 7]
  from p t have c1: "createId sampleUuids 0 (idListing (IdNum (Num 42)))
                   = (String_id (the (raw_id (idListing (IdNum (Num 42))))), 0)"
    by blast
  from p t
  have c2: "itemId (fst (transformListing sampleUuids 0 (idListing (IdNum (Num 42)))))
       = itemId (fst (transformListing sampleRnd 7 (idListing (IdNum (Num 42)))))"
    by blast
  have big: "createId sampleUuids 0 (idListing (IdNum (Num 1000000000000000000000)))
       = (str ''1e+21'', 0)"
    using createId_priority [of "idListing (IdNum (Num 1000000000000000000000))" sampleUuids 0]
    by (simp add: idListing_def emptyListing_def truthy_id_def String_id_def
          Number_toString_1e21)
  have frac: "createId sampleUuids 0 (idListing (IdNum (Num (3 / 2)))) = (str ''1.5'', 0)"
    using createId_priority [of "idListing (IdNum (Num (3 / 2)))" sampleUuids 0]
    by (simp add: idListing_def emptyListing_def truthy_id_def String_id_def
          Number_toString_fraction)
  have u: "\<not> truthy_id (raw_id dupA)" "truthy_str (raw_url dupA)"
    "the (raw_url dupA) = str ''https://x/1''"
    by (simp_all add: dupA_def emptyListing_def truthy_id_def truthy_str_def str_def)
  have w: "wellFormed (the (raw_url dupA))"
    by (simp add: u(3)) (simp add: str_def hiSurrogate_def loSurrogate_def)
  note q = createId_priority [of dupA sampleUuids 0]
  from q u(1,2) have c3: "createId sampleUuids 0 dupA = (Buffer_base64 (the (raw_url dupA)), 0)"
    by blast
  from q u(1,2) w
  have c4: "unutf8 (unbase64 (fst (createId sampleUuids 0 dupA))) = the (raw_url dupA)"
    by blast
  have e: "\<not> truthy_id (raw_id emptyListing)" "\<not> truthy_str (raw_url emptyListing)"
    by (simp_all add: emptyListing_def truthy_id_def truthy_str_def)
  from createId_priority [of emptyListing sampleUuids 3] e
  have c5: "createId sampleUuids 3 emptyListing = (sampleUuids 3, Suc 3)"
    by blast
  have c6: "sampleUuids 3 = str ''uuid-3''"
    by (simp add: sampleUuids_def showNat.simps str_def)
  from c3 have c3': "createId sampleUuids 0 dupA = (str ''aHR0cHM6Ly94LzE='', 0)"
    by (simp only: u(3) base64_sample_url)
  from c4 c3' have c4': "unutf8 (unbase64 (str ''aHR0cHM6Ly94LzE='')) = str ''https://x/1''"
    by (simp only: u(3) fst_conv)
  from t s c1 c2 big frac u(1,2) w c3' c4' e c5 c6 show ?thesis by simp
qed

theorem createId_zero_id_ignored:
  "raw_id (idListing (IdNum (Num 0))) = Some (IdNum (Num 0))
   \<and> String_id (IdNum (Num 0)) = str ''0''
   \<and> fst (createId sampleUuids 0 (idListing (IdNum (Num 0)))) = str ''aHR0cHM6Ly94LzE=''
   \<and> fst (createId sampleUuids 0 (emptyListing\<lparr> raw_id := Some (IdNum (Num 0)) \<rparr>))
       \<noteq> fst (createId sampleUuids 1 (emptyListing\<lparr> raw_id := Some (IdNum (Num 0)) \<rparr>))"
proof -
  have "fst (createId sampleUuids 0 (idListing (IdNum (Num 0)))) = Buffer_base64 (str ''https://x/1'')"
    by (simp add: createId_def idListing_def emptyListing_def truthy_id_def truthy_str_def
          str_def)
  then have "fst (createId sampleUuids 0 (idListing (IdNum (Num 0)))) = str ''aHR0cHM6Ly94LzE=''"
    by (simp only: base64_sample_url)
  moreover have "String_id (IdNum (Num 0)) = str ''0''"
    by (simp add: String_id_def Number_toString_def)
  moreover have "fst (createId sampleUuids 0 (emptyListing\<lparr> raw_id := Some (IdNum (Num 0)) \<rparr>))
       \<noteq> fst (createId sampleUuids 1 (emptyListing\<lparr> raw_id := Some (IdNum (Num 0)) \<rparr>))"
    by (simp add: createId_def emptyListing_def truthy_id_def truthy_str_def sampleUuids_def
          showNat.simps)
  moreover have "raw_id (idListing (IdNum (Num 0))) = Some (IdNum (Num 0))"
    by (simp add: idListing_def emptyListing_def)
  ultimately show ?thesis by simp
qed

section \<open>The scoring routine\<close>

lemma scoreLoop_ok:
  "\<forall>j < length items. call (k + j) (items ! j) = Inr (resp (k + j)) \<Longrightarrow>
   scoreLoop P conv call k items acc
     = Inr (acc @ map (\<lambda>j. scoreOf P conv (items ! j) (resp (k + j))) [0..<length items])"
proof (induction items arbitrary: k acc)
  case Nil
  then show ?case by simp
next
  case (Cons x xs)
  from Cons.prems have h0: "call k x = Inr (resp k)" by force
  from Cons.prems have "\<forall>j < length xs. call (Suc k + j) (xs ! j) = Inr (resp (Suc k + j))"
    by force
  from Cons.IH [OF this]
  have "scoreLoop P conv call (Suc k) xs (acc @ [scoreOf P conv x (resp k)])
        = Inr ((acc @ [scoreOf P conv x (resp k)])
               @ map (\<lambda>j. scoreOf P conv (xs ! j) (resp (Suc k + j))) [0..<length xs])" .
  moreover have "map (\<lambda>j. scoreOf P conv ((x # xs) ! j) (resp (k + j))) [0..<length (x # xs)]
      = scoreOf P conv x (resp k)
        # map (\<lambda>j. scoreOf P conv (xs ! j) (resp (Suc k + j))) [0..<length xs]"
    by (simp add: upt_conv_Cons map_Suc_upt [symmetric] del: upt_Suc)
  ultimately show ?case using h0 by simp
qed

lemma scoreOf_malformed:
  "P r = None \<Longrightarrow>
   scoreOf P conv item (Some r) =
     \<lparr> score_id = itemId item,
       score_aiScore = Some (Num 0),
       score_aiReason = Some (JStr (str ''OpenAI response could not be parsed.'')),
       score_aiHighlights = Some (JArr []) \<rparr>"
  by (simp add: scoreOf_def parseScore_def parseFailure_def orElse_def Let_def)

lemma clamped_when_numeric:
  "P r = Some (JObj kvs) \<Longrightarrow> map_of kvs (str ''score'') = Some (JNum (Num v)) \<Longrightarrow>
   score (parseScore P conv r) = Num (min 100 (max 0 v))"
  by (simp add: parseScore_def getProp_def ToNumber_def Math_max_def Math_min_def js_lt_def)

text \<open>
  C8. When the key is configured and every call to the scoring service returns, the
  routine returns one result per listing, in order, the result of a listing computed from
  that listing and the answer to its own call alone; a listing whose answer is no JSON
  text gets the score 0, the note that the response could not be parsed, and no
  highlights.
\<close>

theorem malformed_answer_degrades:
  assumes key: "truthy_str (OPENAI_API_KEY env)"
    and calls: "\<forall>j < length items.
                  orc (orElse (OPENAI_MODEL env) (str ''gpt-4.1-mini'')) j (items ! j) = Inr (resp j)"
  shows "scoreRealEstateItems env P conv orc items
           = Inr (map (\<lambda>j. scoreOf P conv (items ! j) (resp j)) [0..<length items])
         \<and> (j < length items \<and> resp j = Some r \<and> P r = None \<longrightarrow>
              map (\<lambda>j. scoreOf P conv (items ! j) (resp j)) [0..<length items] ! j =
                \<lparr> score_id = itemId (items ! j),
                  score_aiScore = Some (Num 0),
                  score_aiReason = Some (JStr (str ''OpenAI response could not be parsed.'')),
                  score_aiHighlights = Some (JArr []) \<rparr>)"
proof -
  let ?rs = "map (\<lambda>j. scoreOf P conv (items ! j) (resp j)) [0..<length items]"
  have "scoreRealEstateItems env P conv orc items = Inr ?rs"
  proof (cases "items = []")
    case True
    then show ?thesis by (simp add: scoreRealEstateItems_def)
  next
    case False
    from calls
      scoreLoop_ok [of items "orc (orElse (OPENAI_MODEL env) (str ''gpt-4.1-mini''))" 0 resp
                     P conv "[]"]
    show ?thesis using key False by (simp add: scoreRealEstateItems_def)
  qed
  moreover have "j < length items \<and> resp j = Some r \<and> P r = None \<longrightarrow>
                 ?rs ! j =
                   \<lparr> score_id = itemId (items ! j),
                     score_aiScore = Some (Num 0),
                     score_aiReason = Some (JStr (str ''OpenAI response could not be parsed.'')),
                     score_aiHighlights = Some (JArr []) \<rparr>"
    by (simp add: scoreOf_malformed)
  ultimately show ?thesis by blast
qed

theorem malformed_answer_degrades_witness:
  "truthy_str (OPENAI_API_KEY sampleEnv)
   \<and> sampleParse (str ''not json'') = None
   \<and> scoreRealEstateItems sampleEnv sampleParse sampleConv sampleScoring
        [itemOf (idListing (IdStr (str ''a''))), itemOf (idListing (IdStr (str ''b'')))]
      = Inr [\<lparr> score_id = str ''a'', score_aiScore = Some (Num 0),
                score_aiReason = Some (JStr (str ''OpenAI response could not be parsed.'')),
                score_aiHighlights = Some (JArr []) \<rparr>,
             \<lparr> score_id = str ''b'', score_aiScore = Some (Num 100),
                score_aiReason = Some (JStr []), score_aiHighlights = Some (JArr []) \<rparr>]"
proof -
  let ?a = "itemOf (idListing (IdStr (str ''a'')))"
  let ?b = "itemOf (idListing (IdStr (str ''b'')))"
  let ?good = "str ''{'' @ [34] @ str ''score'' @ [34] @ str '':150}''"
  let ?resp = "\<lambda>k::nat. Some (if k = 0 then str ''not json'' else ?good)"
  have ida: "itemId ?a = str ''a''" and idb: "itemId ?b = str ''b''"
    using itemId_idListing by (simp_all add: str_def)
  have key: "truthy_str (OPENAI_API_KEY sampleEnv)"
    by (simp add: sampleEnv_def truthy_str_def str_def)
  have bad: "sampleParse (str ''not json'') = None"
    by (simp add: sampleParse_def str_def)
  have good: "sampleParse ?good = Some (JObj [(str ''score'', JNum (Num 150))])"
    by (simp add: sampleParse_def str_def)
  have calls: "\<forall>j < length [?a, ?b].
      sampleScoring (orElse (OPENAI_MODEL sampleEnv) (str ''gpt-4.1-mini'')) j ([?a, ?b] ! j)
        = Inr (?resp j)"
    by (simp add: sampleScoring_def)
  have second: "scoreOf sampleParse sampleConv ?b (Some ?good)
      = \<lparr> score_id = str ''b'', score_aiScore = Some (Num 100),
          score_aiReason = Some (JStr []), score_aiHighlights = Some (JArr []) \<rparr>"
    using clamped_when_numeric
            [of sampleParse ?good "[(str ''score'', JNum (Num 150))]" 150 sampleConv]
      good idb
    by (simp add: scoreOf_def parseScore_def getProp_def orDefault_def orElse_def Let_def
          str_def)
  have first: "scoreOf sampleParse sampleConv ?a (Some (str ''not json''))
      = \<lparr> score_id = str ''a'', score_aiScore = Some (Num 0),
          score_aiReason = Some (JStr (str ''OpenAI response could not be parsed.'')),
          score_aiHighlights = Some (JArr []) \<rparr>"
    using scoreOf_malformed [of sampleParse "str ''not json''" sampleConv ?a] bad ida by simp
  have "scoreRealEstateItems sampleEnv sampleParse sampleConv sampleScoring [?a, ?b]
        = Inr (map (\<lambda>j. scoreOf sampleParse sampleConv ([?a, ?b] ! j) (?resp j))
                 [0..<length [?a, ?b]])"
    using malformed_answer_degrades
            [where env = sampleEnv and items = "[?a, ?b]" and orc = sampleScoring
               and resp = ?resp and P = sampleParse and conv = sampleConv, OF key calls]
    by blast
  also have "map (\<lambda>j. scoreOf sampleParse sampleConv ([?a, ?b] ! j) (?resp j))
                 [0..<length [?a, ?b]]
      = [scoreOf sampleParse sampleConv ?a (Some (str ''not json'')),
         scoreOf sampleParse sampleConv ?b (Some ?good)]"
    by (simp add: upt_conv_Cons del: upt_Suc)
  finally show ?thesis using key bad first second by simp
qed

text \<open>
  C9 fails on the code. An answer that is a JSON object without a \<open>score\<close>, such as the
  text \<open>{}\<close> the routine itself puts in the place of a missing content, gives the score
  NaN: \<open>Math.max(0, undefined)\<close> is NaN and so is \<open>Math.min(100, NaN)\<close>.
\<close>

theorem missing_score_is_NaN:
  "P (str ''{}'') = Some (JObj []) \<Longrightarrow>
   score (parseScore P conv (str ''{}'')) = NaN
   \<and> score_aiScore (scoreOf P conv item None) = Some NaN
   \<and> score_aiScore (scoreOf P conv item None) \<notin> {Some (Num v) | v. 0 \<le> v \<and> v \<le> 100}"
  by (simp add: scoreOf_def parseScore_def getProp_def ToNumber_def Math_max_def Math_min_def
        orElse_def Let_def)

theorem missing_score_is_NaN_witness:
  "sampleParse (str ''{}'') = Some (JObj [])
   \<and> scoreRealEstateItems sampleEnv sampleParse sampleConv silentScoring
        [itemOf (idListing (IdStr (str ''a'')))]
      = Inr [\<lparr> score_id = str ''a'', score_aiScore = Some NaN,
                score_aiReason = Some (JStr []), score_aiHighlights = Some (JArr []) \<rparr>]"
proof -
  let ?a = "itemOf (idListing (IdStr (str ''a'')))"
  have ida: "itemId ?a = str ''a''"
    using itemId_idListing by (simp add: str_def)
  have p: "sampleParse (str ''{}'') = Some (JObj [])"
    by (simp add: sampleParse_def)
  from missing_score_is_NaN [of sampleParse sampleConv ?a] p
  have n: "score_aiScore (scoreOf sampleParse sampleConv ?a None) = Some NaN" by blast
  have rest: "score_id (scoreOf sampleParse sampleConv ?a None) = str ''a''
      \<and> score_aiReason (scoreOf sampleParse sampleConv ?a None) = Some (JStr [])
      \<and> score_aiHighlights (scoreOf sampleParse sampleConv ?a None) = Some (JArr [])"
    using p ida
    by (simp add: scoreOf_def parseScore_def getProp_def orDefault_def orElse_def Let_def)
  have "scoreRealEstateItems sampleEnv sampleParse sampleConv silentScoring [?a]
        = Inr [scoreOf sampleParse sampleConv ?a None]"
    by (simp add: scoreRealEstateItems_def sampleEnv_def truthy_str_def silentScoring_def
          str_def)
  moreover have "scoreOf sampleParse sampleConv ?a None
      = \<lparr> score_id = str ''a'', score_aiScore = Some NaN,
          score_aiReason = Some (JStr []), score_aiHighlights = Some (JArr []) \<rparr>"
    using n rest by (cases "scoreOf sampleParse sampleConv ?a None") simp
  ultimately show ?thesis using p by simp
qed

end
